theory Spec2Isabelle
  imports Complex_Main "HOL-Library.Multiset"
begin

section \<open>Data model\<close>

text \<open>
  An earthquake event as the catalog service delivers it:
  \<^verbatim>\<open>{ id, magnitude, latitude, longitude, depth, place, time }\<close>.
  JavaScript numbers are modelled as exact reals (no rounding, no NaN, no infinities).
  The field \<open>time\<close> holds the value of \<^verbatim>\<open>new Date(eq.time)\<close>, a valid date: an integer
  number of milliseconds since the epoch. Comparing or subtracting two \<^verbatim>\<open>Date\<close> objects
  compares or subtracts these numbers.
\<close>

record earthquake =
  id' :: string
  magnitude :: real
  latitude :: real
  longitude :: real
  depth :: real
  place :: string
  time :: int

text \<open>
  The object \<^verbatim>\<open>{ ...eq, distance: ..., direction: ... }\<close> built by
  \<^verbatim>\<open>filterEarthquakesByRadius\<close>: every field of the event, and two more.
  \<open>direction\<close> is \<open>None\<close> where the array read yields \<^verbatim>\<open>undefined\<close>.
\<close>

record located = earthquake +
  distance :: real
  direction :: "string option"

section \<open>Numbers, arrays and sorting of the host language\<close>

text \<open>\<^verbatim>\<open>Math.atan2(y, x)\<close>: the angle of the point \<open>(x, y)\<close>, in \<open>(-\<pi>, \<pi>]\<close>.\<close>

definition Math_atan2 :: "real \<Rightarrow> real \<Rightarrow> real" where
  "Math_atan2 y x =
     (if 0 < x then arctan (y / x)
      else if x < 0 then (if 0 \<le> y then arctan (y / x) + pi else arctan (y / x) - pi)
      else if 0 < y then pi / 2
      else if y < 0 then - pi / 2
      else 0)"

text \<open>\<^verbatim>\<open>Math.round(x)\<close>: the nearest integer, a half rounded up.\<close>

definition Math_round :: "real \<Rightarrow> real" where
  "Math_round x = of_int \<lfloor>x + 1 / 2\<rfloor>"

text \<open>\<^verbatim>\<open>Math.pow(b, e)\<close> for a positive base.\<close>

definition Math_pow :: "real \<Rightarrow> real \<Rightarrow> real" where
  "Math_pow b e = b powr e"

text \<open>
  The remainder operator \<^verbatim>\<open>x % y\<close> for \<open>y \<noteq> 0\<close>: the quotient is truncated towards
  zero, so the result has the sign of the dividend.
\<close>

definition js_trunc :: "real \<Rightarrow> int" where
  "js_trunc z = (if 0 \<le> z then \<lfloor>z\<rfloor> else \<lceil>z\<rceil>)"

definition js_rem :: "real \<Rightarrow> real \<Rightarrow> real" where
  "js_rem x y = x - y * of_int (js_trunc (x / y))"

text \<open>
  The array read \<^verbatim>\<open>xs[i]\<close> with a number as index: the element when \<open>i\<close> is an
  integer in range, otherwise \<^verbatim>\<open>undefined\<close>.
\<close>

definition array_get :: "'a list \<Rightarrow> real \<Rightarrow> 'a option" where
  "array_get xs i =
     (if of_int \<lfloor>i\<rfloor> = i \<and> 0 \<le> i \<and> \<lfloor>i\<rfloor> < int (length xs)
      then Some (xs ! nat \<lfloor>i\<rfloor>) else None)"

text \<open>
  \<^verbatim>\<open>Array.prototype.sort(cmp)\<close>: a stable sort; \<open>a\<close> stays before \<open>b\<close> unless
  \<open>cmp a b > 0\<close>. With a consistent comparator the result does not depend on the
  engine's algorithm; it is written here as an insertion sort.
\<close>

fun sort_insert :: "('a \<Rightarrow> 'a \<Rightarrow> 'n::linordered_idom) \<Rightarrow> 'a \<Rightarrow> 'a list \<Rightarrow> 'a list" where
  "sort_insert cmp x [] = [x]"
| "sort_insert cmp x (y # ys) =
     (if cmp x y \<le> 0 then x # y # ys else y # sort_insert cmp x ys)"

definition Array_sort :: "('a \<Rightarrow> 'a \<Rightarrow> 'n::linordered_idom) \<Rightarrow> 'a list \<Rightarrow> 'a list" where
  "Array_sort cmp xs = foldr (sort_insert cmp) xs []"

section \<open>Distance, direction and the radius filter\<close>

text \<open>\<^verbatim>\<open>calculateDistance\<close>: the haversine formula, Earth radius 6371 km.\<close>

definition calculateDistance :: "real \<Rightarrow> real \<Rightarrow> real \<Rightarrow> real \<Rightarrow> real" where
  "calculateDistance lat1 lon1 lat2 lon2 =
     (let R = 6371;
          dLat = (lat2 - lat1) * pi / 180;
          dLon = (lon2 - lon1) * pi / 180;
          a = sin (dLat / 2) * sin (dLat / 2) +
              cos (lat1 * pi / 180) * cos (lat2 * pi / 180) *
              sin (dLon / 2) * sin (dLon / 2);
          c = 2 * Math_atan2 (sqrt a) (sqrt (1 - a))
      in R * c)"

text \<open>
  The distance the specification speaks of, stated without the code: the length of the
  great-circle arc between two points given in degrees on a sphere of radius 6371 km, that
  is the radius times the angle between the two position vectors. \<open>hav\<close> is the haversine
  function.
\<close>

definition hav :: "real \<Rightarrow> real" where
  "hav x = sin (x / 2) * sin (x / 2)"

definition great_circle_distance :: "real \<Rightarrow> real \<Rightarrow> real \<Rightarrow> real \<Rightarrow> real" where
  "great_circle_distance lat1 lon1 lat2 lon2 =
     6371 * arccos (sin (lat1 * pi / 180) * sin (lat2 * pi / 180) +
                    cos (lat1 * pi / 180) * cos (lat2 * pi / 180) *
                    cos ((lon2 - lon1) * pi / 180))"

definition directions :: "string list" where
  "directions = [''N'', ''NE'', ''E'', ''SE'', ''S'', ''SW'', ''W'', ''NW'']"

text \<open>The local \<^verbatim>\<open>index\<close> of \<^verbatim>\<open>getDirection\<close>.\<close>

definition getDirection_index :: "real \<Rightarrow> real \<Rightarrow> real \<Rightarrow> real \<Rightarrow> real" where
  "getDirection_index lat1 lon1 lat2 lon2 =
     (let dLon = lon2 - lon1;
          y = sin dLon * cos lat2;
          x = cos lat1 * sin lat2 - sin lat1 * cos lat2 * cos dLon;
          bearing = Math_atan2 y x * 180 / pi
      in js_rem (Math_round (js_rem (bearing + 360) 360 / 45)) 8)"

definition getDirection :: "real \<Rightarrow> real \<Rightarrow> real \<Rightarrow> real \<Rightarrow> string option" where
  "getDirection lat1 lon1 lat2 lon2 =
     array_get directions (getDirection_index lat1 lon1 lat2 lon2)"

definition filterEarthquakesByRadius ::
  "earthquake list \<Rightarrow> real \<Rightarrow> real \<Rightarrow> real \<Rightarrow> located list" where
  "filterEarthquakesByRadius earthquakes lat lon radiusKm =
     Array_sort (\<lambda>a b. time b - time a)
       (filter (\<lambda>eq. distance eq \<le> radiusKm)
         (map (\<lambda>eq. earthquake.extend eq
                 (located.fields
                    (calculateDistance lat lon (latitude eq) (longitude eq))
                    (getDirection lat lon (latitude eq) (longitude eq))))
            earthquakes))"

text \<open>\<^verbatim>\<open>calculateHazardZones\<close>: three radii from the magnitude.\<close>

record hazard_zones =
  critical :: real
  high :: real
  moderate :: real

definition calculateHazardZones :: "real \<Rightarrow> hazard_zones" where
  "calculateHazardZones m =
     (let baseRadius = Math_pow 10 (m - 2) * 1000
      in \<lparr>critical = baseRadius * 0.3, high = baseRadius * 0.6, moderate = baseRadius * 1.0\<rparr>)"

section \<open>The activity card of a selected earthquake\<close>

text \<open>\<^verbatim>\<open>getMagnitudeBasedRadius\<close>: between 500 km and 1500 km.\<close>

definition getMagnitudeBasedRadius :: "real \<Rightarrow> real" where
  "getMagnitudeBasedRadius m = max 500 (min 1500 (m * 100))"

text \<open>
  \<^verbatim>\<open>separateBeforeAfter\<close>: a \<^verbatim>\<open>reduce\<close> over the events whose accumulator holds the
  two arrays; \<^verbatim>\<open>push\<close> appends.
\<close>

record 'a groups =
  before :: "'a list"
  after :: "'a list"

definition separateBeforeAfter ::
  "'a earthquake_scheme list \<Rightarrow> int \<Rightarrow> string \<Rightarrow> 'a earthquake_scheme groups" where
  "separateBeforeAfter earthquakes mainshockTime mainshockId =
     foldl (\<lambda>acc eq.
              if id' eq = mainshockId then acc
              else if time eq < mainshockTime then acc\<lparr>before := before acc @ [eq]\<rparr>
              else acc\<lparr>after := after acc @ [eq]\<rparr>)
       \<lparr>before = [], after = []\<rparr> earthquakes"

text \<open>\<^verbatim>\<open>identifyForeshocks\<close>; \<^verbatim>\<open>slice(0, 5)\<close> keeps the first five elements.\<close>

definition identifyForeshocks ::
  "'a earthquake_scheme list \<Rightarrow> int \<Rightarrow> 'a earthquake_scheme list" where
  "identifyForeshocks beforeEarthquakes mainshockTime =
     (let sevenDaysBefore = mainshockTime - 7 * 24 * 60 * 60 * 1000
      in take 5
           (Array_sort (\<lambda>a b. magnitude b - magnitude a)
              (filter (\<lambda>eq. sevenDaysBefore \<le> time eq \<and> 3.5 \<le> magnitude eq)
                 beforeEarthquakes)))"

text \<open>
  \<^verbatim>\<open>generateBeforeHeatmap\<close>: seven counters, one per day before the mainshock; an event
  outside the seven days is counted nowhere.
\<close>

definition generateBeforeHeatmap :: "'a earthquake_scheme list \<Rightarrow> int \<Rightarrow> nat list" where
  "generateBeforeHeatmap earthquakes mainshockTime =
     foldl (\<lambda>heatmap eq.
              let daysBeforeMainshock =
                    \<lfloor>real_of_int (mainshockTime - time eq) / (1000 * 60 * 60 * 24)\<rfloor>
              in if 0 \<le> daysBeforeMainshock \<and> daysBeforeMainshock < 7
                 then heatmap[nat (6 - daysBeforeMainshock) :=
                                heatmap ! nat (6 - daysBeforeMainshock) + 1]
                 else heatmap)
       (replicate 7 0) earthquakes"

text \<open>
  The object returned by the two classifiers. \<open>icon\<close> is an emoji, kept as its Unicode
  code point.
\<close>

record activity_level =
  level :: string
  color :: string
  icon :: nat
  bgColor :: string

definition getBeforeActivityLevel :: "nat \<Rightarrow> real \<Rightarrow> activity_level" where
  "getBeforeActivityLevel count' avgMag' =
     (if 25 < count' \<or> 4.5 < avgMag'
      then \<lparr>level = ''HIGH'', color = ''#dc2626'', icon = 0x1F534, bgColor = ''#fee2e2''\<rparr>
      else if 15 < count' \<or> 4.0 < avgMag'
      then \<lparr>level = ''ELEVATED'', color = ''#f59e0b'', icon = 0x1F7E0, bgColor = ''#fef3c7''\<rparr>
      else if 5 < count'
      then \<lparr>level = ''MODERATE'', color = ''#fbbf24'', icon = 0x1F7E1, bgColor = ''#fef9c3''\<rparr>
      else \<lparr>level = ''LOW'', color = ''#10b981'', icon = 0x1F7E2, bgColor = ''#d1fae5''\<rparr>)"

text \<open>The average of the magnitudes, \<open>0\<close> for no event.\<close>

definition avgMag :: "'a earthquake_scheme list \<Rightarrow> real" where
  "avgMag es =
     (if 0 < length es
      then foldl (\<lambda>sum eq. sum + magnitude eq) 0 es / real (length es)
      else 0)"

text \<open>
  The local \<^verbatim>\<open>before7d\<close> of \<^verbatim>\<open>EarthquakeActivityCard\<close>: the events before the
  mainshock that are at most seven days older.
\<close>

definition before7d :: "'a earthquake_scheme list \<Rightarrow> int \<Rightarrow> 'a earthquake_scheme list" where
  "before7d before_events mainshockTime =
     (let sevenDaysBefore = mainshockTime - 7 * 24 * 60 * 60 * 1000
      in filter (\<lambda>eq. sevenDaysBefore \<le> time eq) before_events)"

text \<open>
  What \<^verbatim>\<open>EarthquakeActivityCard\<close> computes from the events before it renders: the counts
  and averages before and after the mainshock, the foreshocks, the activity level and the
  heatmap. (The largest aftershock and the colours of the heatmap cells are left out.)
\<close>

record earthquake_activity =
  countBefore :: nat
  avgMagBefore :: real
  countAfter :: nat
  avgMagAfter :: real
  foreshocks :: "located list"
  beforeActivityLevel :: activity_level
  beforeHeatmapData :: "nat list"

definition EarthquakeActivityCard :: "'a earthquake_scheme \<Rightarrow> earthquake list \<Rightarrow> earthquake_activity" where
  "EarthquakeActivityCard earthquake allEarthquakes =
     (let radius = getMagnitudeBasedRadius (magnitude earthquake);
          nearbyEarthquakes =
            filterEarthquakesByRadius allEarthquakes (latitude earthquake) (longitude earthquake) radius;
          ba = separateBeforeAfter nearbyEarthquakes (time earthquake) (id' earthquake);
          b7 = before7d (before ba) (time earthquake)
      in \<lparr>countBefore = length b7,
          avgMagBefore = avgMag b7,
          countAfter = length (after ba),
          avgMagAfter = avgMag (after ba),
          foreshocks = identifyForeshocks (before ba) (time earthquake),
          beforeActivityLevel = getBeforeActivityLevel (length b7) (avgMag b7),
          beforeHeatmapData = generateBeforeHeatmap b7 (time earthquake)\<rparr>)"

section \<open>The real-time activity card of a location\<close>

text \<open>
  \<^verbatim>\<open>generateHeatmapData\<close> reads the clock itself (\<^verbatim>\<open>new Date()\<close>); the reading is the
  parameter \<open>now\<close>.
\<close>

definition generateHeatmapData :: "int \<Rightarrow> 'a earthquake_scheme list \<Rightarrow> nat list" where
  "generateHeatmapData now earthquakes =
     foldl (\<lambda>heatmap eq.
              let daysAgo = \<lfloor>real_of_int (now - time eq) / (1000 * 60 * 60 * 24)\<rfloor>
              in if 0 \<le> daysAgo \<and> daysAgo < 7
                 then heatmap[nat (6 - daysAgo) := heatmap ! nat (6 - daysAgo) + 1]
                 else heatmap)
       (replicate 7 0) earthquakes"

definition getActivityLevel :: "nat \<Rightarrow> real \<Rightarrow> activity_level" where
  "getActivityLevel count7d avgMag7d =
     (if 50 < count7d \<or> 5.5 < avgMag7d
      then \<lparr>level = ''HIGH'', color = ''#dc2626'', icon = 0x1F534, bgColor = ''#fee2e2''\<rparr>
      else if 25 < count7d \<or> 5.0 < avgMag7d
      then \<lparr>level = ''ELEVATED'', color = ''#f59e0b'', icon = 0x1F7E0, bgColor = ''#fef3c7''\<rparr>
      else if 10 < count7d \<or> 4.5 < avgMag7d
      then \<lparr>level = ''MODERATE'', color = ''#fbbf24'', icon = 0x1F7E1, bgColor = ''#fef9c3''\<rparr>
      else \<lparr>level = ''LOW'', color = ''#10b981'', icon = 0x1F7E2, bgColor = ''#d1fae5''\<rparr>)"

text \<open>
  The local \<^verbatim>\<open>last7Days\<close> of \<^verbatim>\<open>RealTimeActivityCard\<close>: the events whose age in days,
  at the component's clock reading \<open>now\<close>, is at most seven.
\<close>

definition last7Days :: "int \<Rightarrow> 'a earthquake_scheme list \<Rightarrow> 'a earthquake_scheme list" where
  "last7Days now nearbyEarthquakes =
     filter (\<lambda>eq. real_of_int (now - time eq) / (1000 * 60 * 60 * 24) \<le> 7) nearbyEarthquakes"

text \<open>
  What \<^verbatim>\<open>RealTimeActivityCard\<close> computes for the seven-day window: the count, the
  average magnitude, the activity level and the heatmap. (The thirty-day figures, the trend
  and the nearest events are left out.) The component reads the clock (\<open>now\<close>) and
  \<^verbatim>\<open>generateHeatmapData\<close> reads it again (\<open>now'\<close>).
\<close>

record realtime_activity =
  count7d :: nat
  avgMag7d :: real
  activityLevel :: activity_level
  heatmapData :: "nat list"

definition RealTimeActivityCard ::
  "real \<Rightarrow> real \<Rightarrow> earthquake list \<Rightarrow> int \<Rightarrow> int \<Rightarrow> realtime_activity" where
  "RealTimeActivityCard location_latitude location_longitude allEarthquakes now now' =
     (let nearbyEarthquakes =
            filterEarthquakesByRadius allEarthquakes location_latitude location_longitude 500;
          l7 = last7Days now nearbyEarthquakes
      in \<lparr>count7d = length l7,
          avgMag7d = avgMag l7,
          activityLevel = getActivityLevel (length l7) (avgMag l7),
          heatmapData = generateHeatmapData now' l7\<rparr>)"

section \<open>Fetch handlers\<close>

text \<open>
  A rejected promise or a thrown error is a value. The three components below each hold a
  loading flag and an error string (\<open>None\<close> is \<^verbatim>\<open>null\<close>); \<open>console\<close> collects what
  \<^verbatim>\<open>console.error\<close> prints.
\<close>

datatype js_exception = Exception string

record ui_status =
  loading :: bool
  error :: "string option"
  console :: "js_exception list"

text \<open>
  The state of the page \<^verbatim>\<open>Home\<close> that \<^verbatim>\<open>loadEarthquakes\<close> reads or writes.
  \<open>recentRequests\<close> records each call of the external \<^verbatim>\<open>fetchRecentEarthquakes\<close> with
  its arguments (days, minimum magnitude).
\<close>

record home = ui_status +
  earthquakes :: "earthquake list"
  searchedLocation :: "(string \<times> real \<times> real) option"
  timeFilter :: nat
  mapCenter :: "real \<times> real"
  mapZoom :: nat
  userLocation :: "(real \<times> real) option"
  recentRequests :: "(nat \<times> real) list"

text \<open>The response \<^verbatim>\<open>{ earthquakes: [...] }\<close>; the field may be missing.\<close>

record recent_response =
  response_earthquakes :: "earthquake list option"

text \<open>
  \<^verbatim>\<open>loadEarthquakes\<close> up to its \<^verbatim>\<open>await\<close>: the flags are set and the request is sent.
\<close>

definition loadEarthquakes_begin :: "home \<Rightarrow> home" where
  "loadEarthquakes_begin s =
     (let s1 = s\<lparr>loading := True\<rparr>;
          s2 = s1\<lparr>error := None\<rparr>
      in s2\<lparr>recentRequests := recentRequests s2 @ [(timeFilter s, 4.0)]\<rparr>)"

text \<open>
  \<^verbatim>\<open>loadEarthquakes\<close> from its \<^verbatim>\<open>await\<close> on: \<open>r\<close> is the settled promise (\<open>Inl\<close> when it
  is rejected), \<open>s0\<close> the state the handler was created in (its closure reads
  \<^verbatim>\<open>userLocation\<close> and \<^verbatim>\<open>searchedLocation\<close> there) and \<open>s\<close> the state when the promise
  settles.
\<close>

definition loadEarthquakes_resume ::
  "home \<Rightarrow> home \<Rightarrow> js_exception + recent_response \<Rightarrow> home" where
  "loadEarthquakes_resume s0 s r =
     (let s' =
        (case r of
           Inr data \<Rightarrow>
             (let s1 = s\<lparr>earthquakes :=
                          (case response_earthquakes data of Some es \<Rightarrow> es | None \<Rightarrow> [])\<rparr>
              in case response_earthquakes data of
                   Some (latest # rest) \<Rightarrow>
                     if userLocation s0 = None \<and> searchedLocation s0 = None
                     then s1\<lparr>mapCenter := (latitude latest, longitude latest), mapZoom := 5\<rparr>
                     else s1
                 | _ \<Rightarrow> s1)
         | Inl err \<Rightarrow>
             (let s1 = s\<lparr>error := Some ''Failed to load earthquakes. Please try again.''\<rparr>
              in s1\<lparr>console := console s1 @ [err]\<rparr>))
      in s'\<lparr>loading := False\<rparr>)"

definition loadEarthquakes :: "home \<Rightarrow> js_exception + recent_response \<Rightarrow> home" where
  "loadEarthquakes s r = loadEarthquakes_resume s (loadEarthquakes_begin s) r"

text \<open>
  The state of \<^verbatim>\<open>DetailPanel\<close>; \<open>'p\<close> is the forecast of the prediction service.
  \<open>predictRequests\<close> records each call of the external \<^verbatim>\<open>predictAftershocks\<close> with its
  arguments (magnitude, latitude, longitude).
\<close>

record 'p detail_panel = ui_status +
  predictions :: "'p option"
  exporting :: bool
  predictRequests :: "(real \<times> real \<times> real) list"

text \<open>The response \<^verbatim>\<open>{ predictions: ... }\<close>; the field may be missing.\<close>

record 'p predict_response =
  response_predictions :: "'p option"

definition fetchPredictions_begin ::
  "'a earthquake_scheme \<Rightarrow> 'p detail_panel \<Rightarrow> 'p detail_panel" where
  "fetchPredictions_begin earthquake s =
     (let s1 = s\<lparr>loading := True\<rparr>;
          s2 = s1\<lparr>error := None\<rparr>
      in s2\<lparr>predictRequests := predictRequests s2 @
               [(magnitude earthquake, latitude earthquake, longitude earthquake)]\<rparr>)"

definition fetchPredictions_resume ::
  "'p detail_panel \<Rightarrow> js_exception + 'p predict_response \<Rightarrow> 'p detail_panel" where
  "fetchPredictions_resume s r =
     (let s' =
        (case r of
           Inr response \<Rightarrow> s\<lparr>predictions := response_predictions response\<rparr>
         | Inl err \<Rightarrow>
             (let s1 = s\<lparr>error := Some ''Failed to load predictions''\<rparr>
              in s1\<lparr>console := console s1 @ [err]\<rparr>))
      in s'\<lparr>loading := False\<rparr>)"

definition fetchPredictions ::
  "'a earthquake_scheme \<Rightarrow> 'p detail_panel \<Rightarrow> js_exception + 'p predict_response \<Rightarrow>
   'p detail_panel" where
  "fetchPredictions earthquake s r =
     fetchPredictions_resume (fetchPredictions_begin earthquake s) r"

section \<open>The debounced search bar\<close>

text \<open>
  \<^verbatim>\<open>String.prototype.trim\<close> on a string of ASCII characters: the white space and line
  terminators at both ends are removed.
\<close>

definition is_space :: "char \<Rightarrow> bool" where
  "is_space c = (c \<in> set [CHR 0x09, CHR 0x0A, CHR 0x0B, CHR 0x0C, CHR 0x0D, CHR 0x20])"

definition trim :: "string \<Rightarrow> string" where
  "trim s = rev (dropWhile is_space (rev (dropWhile is_space s)))"

text \<open>A place of the geocoding response, and the suggestion made from it.\<close>

record feature =
  formatted :: string
  feature_lat :: real
  feature_lon :: real
  feature_city :: "string option"
  feature_country :: "string option"
  feature_result_type :: "string option"

record suggestion =
  suggestion_name :: string
  suggestion_lat :: real
  suggestion_lon :: real
  suggestion_city :: string
  suggestion_country :: string
  suggestion_type :: string

text \<open>
  What the debounce is observed by: the changes of the search input and the geocoding
  requests sent, each with the time on the clock (in ms) and the query.
\<close>

datatype trace_event = Changed nat string | Fetched nat string

text \<open>
  The state of \<^verbatim>\<open>SearchBar\<close> and of the browser around it: \<open>debounceTimer\<close> is
  \<^verbatim>\<open>debounceTimer.current\<close>; \<open>timers\<close> is the browser's table of pending timeouts, from
  timer id to the time the timeout is due and the query its callback has captured;
  \<open>inFlight\<close> counts the requests not yet settled.
\<close>

record search_bar = ui_status +
  searchQuery :: string
  isFocused :: bool
  suggestions :: "suggestion list"
  debounceTimer :: "nat option"
  clock :: nat
  timers :: "nat \<rightharpoonup> nat \<times> string"
  nextTimer :: nat
  inFlight :: nat
  trace :: "trace_event list"

definition clearTimeout :: "nat \<Rightarrow> search_bar \<Rightarrow> search_bar" where
  "clearTimeout t s = s\<lparr>timers := (timers s)(t := None)\<rparr>"

text \<open>
  \<^verbatim>\<open>setTimeout(() => fetchSuggestions(q), delay)\<close>: a fresh timer id, due \<open>delay\<close> ms from
  now.
\<close>

definition setTimeout :: "string \<Rightarrow> nat \<Rightarrow> search_bar \<Rightarrow> nat \<times> search_bar" where
  "setTimeout q delay s =
     (nextTimer s,
      s\<lparr>timers := (timers s)(nextTimer s \<mapsto> (clock s + delay, q)),
        nextTimer := nextTimer s + 1\<rparr>)"

text \<open>The effect on \<^verbatim>\<open>[searchQuery]\<close>: its cleanup and its body.\<close>

definition debounce_cleanup :: "search_bar \<Rightarrow> search_bar" where
  "debounce_cleanup s =
     (case debounceTimer s of Some t \<Rightarrow> clearTimeout t s | None \<Rightarrow> s)"

definition debounce_effect :: "search_bar \<Rightarrow> search_bar" where
  "debounce_effect s =
     (let s1 = (case debounceTimer s of Some t \<Rightarrow> clearTimeout t s | None \<Rightarrow> s)
      in if 3 \<le> length (trim (searchQuery s1))
         then (case setTimeout (searchQuery s1) 300 s1 of
                 (t, s2) \<Rightarrow> s2\<lparr>debounceTimer := Some t\<rparr>)
         else s1\<lparr>suggestions := []\<rparr>)"

text \<open>
  After a handler has set the state the component renders again; when \<^verbatim>\<open>searchQuery\<close> has
  changed, the cleanup of the previous effect and then the effect run. The change is
  recorded in the trace.
\<close>

definition after_render :: "string \<Rightarrow> search_bar \<Rightarrow> search_bar" where
  "after_render previousQuery s =
     (if searchQuery s = previousQuery then s
      else debounce_effect
             (debounce_cleanup (s\<lparr>trace := trace s @ [Changed (clock s) (searchQuery s)]\<rparr>)))"

definition handleInputChange :: "string \<Rightarrow> search_bar \<Rightarrow> search_bar" where
  "handleInputChange v s = after_render (searchQuery s) (s\<lparr>searchQuery := v\<rparr>)"

definition handleClear :: "search_bar \<Rightarrow> search_bar" where
  "handleClear s =
     after_render (searchQuery s) (s\<lparr>searchQuery := [], suggestions := [], error := None\<rparr>)"

definition handleSelectSuggestion :: "suggestion \<Rightarrow> search_bar \<Rightarrow> search_bar" where
  "handleSelectSuggestion sg s =
     after_render (searchQuery s)
       (s\<lparr>searchQuery := suggestion_name sg, suggestions := [], isFocused := False\<rparr>)"

text \<open>
  \<^verbatim>\<open>fetchSuggestions\<close> up to its \<^verbatim>\<open>await fetch(url)\<close>: the request is sent, and recorded
  in the trace.
\<close>

definition fetchSuggestions_begin :: "string \<Rightarrow> search_bar \<Rightarrow> search_bar" where
  "fetchSuggestions_begin query s =
     (if query = [] \<or> length query < 3 then s\<lparr>suggestions := []\<rparr>
      else (let s1 = s\<lparr>loading := True\<rparr>;
                s2 = s1\<lparr>error := None\<rparr>
            in s2\<lparr>inFlight := inFlight s2 + 1,
                 trace := trace s2 @ [Fetched (clock s2) query]\<rparr>))"

text \<open>
  The response of the geocoding provider: the flag \<^verbatim>\<open>response.ok\<close> and the parsed body's
  \<^verbatim>\<open>features\<close>, which may be missing.
\<close>

record geo_response =
  ok :: bool
  features :: "feature list option"

definition format_feature :: "feature \<Rightarrow> suggestion" where
  "format_feature f =
     \<lparr>suggestion_name = formatted f,
      suggestion_lat = feature_lat f,
      suggestion_lon = feature_lon f,
      suggestion_city = (case feature_city f of Some c \<Rightarrow> c | None \<Rightarrow> []),
      suggestion_country = (case feature_country f of Some c \<Rightarrow> c | None \<Rightarrow> []),
      suggestion_type = (case feature_result_type f of Some c \<Rightarrow> c | None \<Rightarrow> ''place'')\<rparr>"

text \<open>\<^verbatim>\<open>fetchSuggestions\<close> from its \<^verbatim>\<open>await\<close> on.\<close>

definition fetchSuggestions_resume ::
  "search_bar \<Rightarrow> js_exception + geo_response \<Rightarrow> search_bar" where
  "fetchSuggestions_resume s r =
     (let failed = (\<lambda>err.
            let s1 = s\<lparr>console := console s @ [err]\<rparr>;
                s2 = s1\<lparr>error := Some ''Unable to fetch location suggestions''\<rparr>
            in s2\<lparr>suggestions := []\<rparr>);
          s' =
            (case r of
               Inl err \<Rightarrow> failed err
             | Inr response \<Rightarrow>
                 if \<not> ok response then failed (Exception ''Failed to fetch suggestions'')
                 else (case features response of
                         Some (f # fs) \<Rightarrow> s\<lparr>suggestions := map format_feature (f # fs)\<rparr>
                       | _ \<Rightarrow> s\<lparr>suggestions := []\<rparr>))
      in s'\<lparr>loading := False, inFlight := inFlight s' - 1\<rparr>)"

text \<open>
  What can happen to a mounted search bar: the user edits the input, clears it or picks a
  suggestion; time passes; the browser runs the callback of a timeout that is due; a
  request in flight settles.
\<close>

datatype event =
    Input string
  | Clear
  | Select suggestion
  | Wait nat
  | Fire nat
  | Settle "js_exception + geo_response"

fun step :: "search_bar \<Rightarrow> event \<Rightarrow> search_bar" where
  "step s (Input v) = handleInputChange v s"
| "step s Clear = handleClear s"
| "step s (Select sg) = handleSelectSuggestion sg s"
| "step s (Wait d) = s\<lparr>clock := clock s + d\<rparr>"
| "step s (Fire t) =
     (case timers s t of
        Some (due, q) \<Rightarrow>
          if due \<le> clock s then fetchSuggestions_begin q (s\<lparr>timers := (timers s)(t := None)\<rparr>)
          else s
      | None \<Rightarrow> s)"
| "step s (Settle r) = (if 0 < inFlight s then fetchSuggestions_resume s r else s)"

definition run :: "search_bar \<Rightarrow> event list \<Rightarrow> search_bar" where
  "run s evs = foldl step s evs"

text \<open>The search bar when it has mounted at time \<open>t0\<close>: the effect has run once.\<close>

definition SearchBar_mounted :: "nat \<Rightarrow> search_bar" where
  "SearchBar_mounted t0 =
     debounce_effect
       \<lparr>loading = False, error = None, console = [],
        searchQuery = [], isFocused = False, suggestions = [], debounceTimer = None,
        clock = t0, timers = Map.empty, nextTimer = 1, inFlight = 0, trace = []\<rparr>"

text \<open>
  The invariant of the debounce: a pending timeout is the one \<^verbatim>\<open>debounceTimer.current\<close>
  names, it holds the current query, and it is due no earlier than 300 ms after every
  change recorded so far; no change is recorded in the future.
\<close>

definition debounce_inv :: "search_bar \<Rightarrow> bool" where
  "debounce_inv s =
     ((\<forall>t due q. timers s t = Some (due, q) \<longrightarrow>
         debounceTimer s = Some t \<and> q = searchQuery s \<and>
         (\<forall>c q'. Changed c q' \<in> set (trace s) \<longrightarrow> c + 300 \<le> due)) \<and>
      (\<forall>c q'. Changed c q' \<in> set (trace s) \<longrightarrow> c \<le> clock s))"

text \<open>
  A trace is debounced when every request in it comes at least 300 ms after every change
  before it.
\<close>

definition debounced :: "trace_event list \<Rightarrow> bool" where
  "debounced tr =
     (\<forall>pre t q post c q'.
        tr = pre @ Fetched t q # post \<longrightarrow> Changed c q' \<in> set pre \<longrightarrow> c + 300 \<le> t)"

section \<open>Sample inputs\<close>

text \<open>
  A mainshock at the origin, seven days after the epoch, and five other events: one exactly
  seven days before it, one a day before it, one an hour after it (all at the same place),
  one at the North Pole and one on the equator, 90 degrees to the east.
\<close>

definition sample_mainshock :: earthquake where
  "sample_mainshock =
     \<lparr>id' = ''m'', magnitude = 6, latitude = 0, longitude = 0, depth = 10,
      place = ''Gulf of Guinea'', time = 604800000\<rparr>"

definition sample_week_before :: earthquake where
  "sample_week_before =
     \<lparr>id' = ''w'', magnitude = 4, latitude = 0, longitude = 0, depth = 10,
      place = ''Gulf of Guinea'', time = 0\<rparr>"

definition sample_day_before :: earthquake where
  "sample_day_before =
     \<lparr>id' = ''d'', magnitude = 4.5, latitude = 0, longitude = 0, depth = 10,
      place = ''Gulf of Guinea'', time = 518400000\<rparr>"

definition sample_after :: earthquake where
  "sample_after =
     \<lparr>id' = ''a'', magnitude = 5, latitude = 0, longitude = 0, depth = 10,
      place = ''Gulf of Guinea'', time = 608400000\<rparr>"

definition sample_far :: earthquake where
  "sample_far =
     \<lparr>id' = ''f'', magnitude = 5, latitude = 90, longitude = 0, depth = 10,
      place = ''North Pole'', time = 600000000\<rparr>"

definition sample_east :: earthquake where
  "sample_east =
     \<lparr>id' = ''e'', magnitude = 5, latitude = 0, longitude = 90, depth = 10,
      place = ''Indian Ocean'', time = 590000000\<rparr>"

text \<open>An event with the two added fields.\<close>

definition located_at :: "earthquake \<Rightarrow> real \<Rightarrow> string option \<Rightarrow> located" where
  "located_at eq d dr = earthquake.extend eq (located.fields d dr)"

section \<open>Auxiliary facts\<close>

text \<open>The haversine formula gives the great-circle distance.\<close>

lemma sin_half_sq: "sin (x / 2) * sin (x / 2) = (1 - cos x) / (2::real)"
proof -
  have "cos (2 * (x / 2)) = 1 - 2 * (sin (x / 2))\<^sup>2" by (rule cos_double_sin)
  then have "cos x = 1 - 2 * (sin (x / 2) * sin (x / 2))" by (simp add: power2_eq_square)
  then show ?thesis by simp
qed

lemma hav_identity:
  "sin ((p2 - p1) / 2) * sin ((p2 - p1) / 2) +
     cos p1 * cos p2 * sin (dl / 2) * sin (dl / 2) =
   (1 - (sin p1 * sin p2 + cos p1 * cos p2 * cos dl)) / (2::real)"
proof -
  have "cos p1 * cos p2 * sin (dl / 2) * sin (dl / 2) =
        cos p1 * cos p2 * (sin (dl / 2) * sin (dl / 2))" by simp
  also have "\<dots> = cos p1 * cos p2 * ((1 - cos dl) / 2)" by (simp only: sin_half_sq)
  finally have b: "cos p1 * cos p2 * sin (dl / 2) * sin (dl / 2) =
        cos p1 * cos p2 * ((1 - cos dl) / 2)" .
  have a: "sin ((p2 - p1) / 2) * sin ((p2 - p1) / 2) =
        (1 - (cos p2 * cos p1 + sin p2 * sin p1)) / 2"
    by (simp only: sin_half_sq cos_diff)
  show ?thesis unfolding a b by (simp add: field_simps)
qed

lemma central_cos_bounds:
  "- 1 \<le> sin p1 * sin p2 + cos p1 * cos p2 * cos dl \<and>
   sin p1 * sin p2 + cos p1 * cos p2 * cos (dl::real) \<le> 1"
proof -
  define S where "S = sin p1 * sin p2"
  define Q where "Q = cos p1 * cos p2"
  define k where "k = cos dl"
  have k: "- 1 \<le> k" "k \<le> 1" by (simp_all add: k_def)
  have "S + Q = cos (p1 - p2)" by (simp add: S_def Q_def cos_diff)
  then have A: "- 1 \<le> S + Q" "S + Q \<le> 1" by simp_all
  have "S - Q = - cos (p1 + p2)" by (simp add: S_def Q_def cos_add)
  then have B: "- 1 \<le> S - Q" "S - Q \<le> 1" by simp_all
  define X where "X = (1 + k) / 2 * (S + Q)"
  define Y where "Y = (1 - k) / 2 * (S - Q)"
  have e: "S + Q * k = X + Y"
    by (simp add: X_def Y_def field_simps)
  have w: "0 \<le> (1 + k) / 2" "0 \<le> (1 - k) / 2" using k by simp_all
  have "X \<le> (1 + k) / 2 * 1"
    unfolding X_def using A(2) w(1) by (rule mult_left_mono)
  then have u1: "X \<le> (1 + k) / 2" by simp
  have "Y \<le> (1 - k) / 2 * 1"
    unfolding Y_def using B(2) w(2) by (rule mult_left_mono)
  then have u2: "Y \<le> (1 - k) / 2" by simp
  have "(1 + k) / 2 * (- 1) \<le> X"
    unfolding X_def using A(1) w(1) by (rule mult_left_mono)
  then have l1: "- ((1 + k) / 2) \<le> X" by simp
  have "(1 - k) / 2 * (- 1) \<le> Y"
    unfolding Y_def using B(1) w(2) by (rule mult_left_mono)
  then have l2: "- ((1 - k) / 2) \<le> Y" by simp
  have "X + Y \<le> 1" using u1 u2 by argo
  then have "S + Q * k \<le> 1" by (simp only: e)
  moreover have "- 1 \<le> X + Y" using l1 l2 by argo
  then have "- 1 \<le> S + Q * k" by (simp only: e)
  ultimately show ?thesis by (simp only: S_def Q_def k_def)
qed


lemma atan2_arg_arccos:
  assumes "0 \<le> a" "a < (1::real)"
  shows "2 * arctan (sqrt a / sqrt (1 - a)) = arccos (1 - 2 * a)"
    and "arctan (sqrt a / sqrt (1 - a)) = arcsin (sqrt a)"
proof -
  define t where "t = sqrt a / sqrt (1 - a)"
  define th where "th = arctan t"
  have p: "0 < 1 - a" using assms by simp
  have t0: "0 \<le> t" unfolding t_def using assms by simp
  have t2: "t\<^sup>2 = a / (1 - a)"
    unfolding t_def using assms by (simp add: power_divide)
  have s: "1 + t\<^sup>2 = 1 / (1 - a)"
    unfolding t2 using p by (simp add: field_simps)
  have r: "sqrt (1 + t\<^sup>2) = 1 / sqrt (1 - a)"
    unfolding s by (simp add: real_sqrt_divide)
  have "cos th = 1 / sqrt (1 + t\<^sup>2)" unfolding th_def by (rule cos_arctan)
  then have c: "cos th = sqrt (1 - a)" unfolding r by simp
  have "sin th = t / sqrt (1 + t\<^sup>2)" unfolding th_def by (rule sin_arctan)
  then have "sin th = t * sqrt (1 - a)" unfolding r by simp
  then have sn: "sin th = sqrt a" unfolding t_def using p by simp
  have lo: "0 \<le> th" unfolding th_def using t0 by (simp add: zero_le_arctan_iff)
  have hi: "th < pi / 2" unfolding th_def by (rule arctan_ubound)
  have "cos (2 * th) = 2 * (cos th)\<^sup>2 - 1" by (rule cos_double_cos)
  also have "\<dots> = 1 - 2 * a" unfolding c using p by simp
  finally have "arccos (1 - 2 * a) = arccos (cos (2 * th))" by simp
  also have "\<dots> = 2 * th" using lo hi by (intro arccos_cos) simp_all
  finally show "2 * arctan (sqrt a / sqrt (1 - a)) = arccos (1 - 2 * a)"
    by (simp add: th_def t_def)
  have "arcsin (sqrt a) = arcsin (sin th)" by (simp add: sn)
  also have "\<dots> = th" using lo hi by (intro arcsin_sin) simp_all
  finally show "arctan (sqrt a / sqrt (1 - a)) = arcsin (sqrt a)"
    by (simp add: th_def t_def)
qed

lemma Math_atan2_sqrt:
  assumes "0 \<le> a" "a \<le> 1"
  shows "2 * Math_atan2 (sqrt a) (sqrt (1 - a)) = arccos (1 - 2 * a)"
    and "Math_atan2 (sqrt a) (sqrt (1 - a)) = arcsin (sqrt a)"
proof -
  show "2 * Math_atan2 (sqrt a) (sqrt (1 - a)) = arccos (1 - 2 * a)"
  proof (cases "a = 1")
    case True
    then show ?thesis by (simp add: Math_atan2_def)
  next
    case False
    with assms have l: "a < 1" by simp
    then have "0 < sqrt (1 - a)" by simp
    then have "Math_atan2 (sqrt a) (sqrt (1 - a)) = arctan (sqrt a / sqrt (1 - a))"
      by (simp add: Math_atan2_def)
    with atan2_arg_arccos(1) [OF assms(1) l] show ?thesis by simp
  qed
  show "Math_atan2 (sqrt a) (sqrt (1 - a)) = arcsin (sqrt a)"
  proof (cases "a = 1")
    case True
    then show ?thesis by (simp add: Math_atan2_def)
  next
    case False
    with assms have l: "a < 1" by simp
    then have "0 < sqrt (1 - a)" by simp
    then have "Math_atan2 (sqrt a) (sqrt (1 - a)) = arctan (sqrt a / sqrt (1 - a))"
      by (simp add: Math_atan2_def)
    with atan2_arg_arccos(2) [OF assms(1) l] show ?thesis by simp
  qed
qed

lemma calculateDistance_formulas:
  "calculateDistance lat1 lon1 lat2 lon2 = great_circle_distance lat1 lon1 lat2 lon2 \<and>
   calculateDistance lat1 lon1 lat2 lon2 =
     2 * 6371 * arcsin (sqrt (hav ((lat2 - lat1) * pi / 180) +
        cos (lat1 * pi / 180) * cos (lat2 * pi / 180) * hav ((lon2 - lon1) * pi / 180)))"
proof -
  define p1 where "p1 = lat1 * pi / 180"
  define p2 where "p2 = lat2 * pi / 180"
  define dl where "dl = (lon2 - lon1) * pi / 180"
  define C where "C = sin p1 * sin p2 + cos p1 * cos p2 * cos dl"
  define a where "a = sin ((p2 - p1) / 2) * sin ((p2 - p1) / 2) +
     cos p1 * cos p2 * sin (dl / 2) * sin (dl / 2)"
  have d: "(lat2 - lat1) * pi / 180 = p2 - p1" by (simp add: p1_def p2_def field_simps)
  have aC: "a = (1 - C) / 2" unfolding a_def C_def by (rule hav_identity)
  have Cb: "- 1 \<le> C" "C \<le> 1" unfolding C_def using central_cos_bounds by blast+
  have ab: "0 \<le> a" "a \<le> 1" using Cb unfolding aC by simp_all
  have c: "calculateDistance lat1 lon1 lat2 lon2 = 6371 * (2 * Math_atan2 (sqrt a) (sqrt (1 - a)))"
    unfolding calculateDistance_def Let_def d a_def p1_def p2_def dl_def ..
  have "1 - 2 * a = C" unfolding aC by (simp add: field_simps)
  with Math_atan2_sqrt(1) [OF ab] have "2 * Math_atan2 (sqrt a) (sqrt (1 - a)) = arccos C"
    by simp
  with c have g: "calculateDistance lat1 lon1 lat2 lon2 = great_circle_distance lat1 lon1 lat2 lon2"
    by (simp add: great_circle_distance_def C_def p1_def p2_def dl_def)
  have h: "a = hav ((lat2 - lat1) * pi / 180) + cos p1 * cos p2 * hav dl"
    unfolding d by (simp add: a_def hav_def)
  from c Math_atan2_sqrt(2) [OF ab]
  have "calculateDistance lat1 lon1 lat2 lon2 = 2 * 6371 * arcsin (sqrt a)" by simp
  then have "calculateDistance lat1 lon1 lat2 lon2 =
     2 * 6371 * arcsin (sqrt (hav ((lat2 - lat1) * pi / 180) +
        cos (lat1 * pi / 180) * cos (lat2 * pi / 180) * hav ((lon2 - lon1) * pi / 180)))"
    unfolding h p1_def p2_def dl_def .
  with g show ?thesis by blast
qed

lemma great_circle_quarter:
  "great_circle_distance 0 0 0 90 = 6371 * pi / 2"
  "great_circle_distance 0 0 90 0 = 6371 * pi / 2"
  "great_circle_distance 0 0 0 0 = 0"
  by (simp_all add: great_circle_distance_def)

lemma east_outside: "500 < calculateDistance 0 0 0 90"
proof -
  have "500 < 6371 * 2 / (2::real)" by simp
  also have "\<dots> \<le> 6371 * pi / 2" using pi_ge_two by simp
  finally show ?thesis by (simp add: calculateDistance_formulas great_circle_quarter)
qed

lemma Math_atan2_bounds: "- pi \<le> Math_atan2 y x \<and> Math_atan2 y x \<le> pi"
proof -
  have a: "- (pi / 2) < arctan (y / x)" "arctan (y / x) < pi / 2"
    by (rule arctan_lbound, rule arctan_ubound)
  have pos: "0 < pi" by simp
  show ?thesis
  proof (cases "0 < x")
    case True
    then show ?thesis using a pos by (simp add: Math_atan2_def)
  next
    case False
    note nx = this
    show ?thesis
    proof (cases "x < 0")
      case True
      show ?thesis
      proof (cases "0 \<le> y")
        case True
        with \<open>x < 0\<close> have "y / x \<le> 0" by (simp add: divide_nonneg_neg)
        then have "arctan (y / x) \<le> 0" by (simp add: arctan_le_zero_iff)
        then show ?thesis using a pos \<open>x < 0\<close> True nx by (simp add: Math_atan2_def)
      next
        case False
        with \<open>x < 0\<close> have "0 < y / x" by (simp add: divide_neg_neg)
        then have "0 < arctan (y / x)" by (simp add: zero_less_arctan_iff)
        then show ?thesis using a pos \<open>x < 0\<close> False nx by (simp add: Math_atan2_def)
      qed
    next
      case False
      show ?thesis using nx False
        by (auto simp: Math_atan2_def) (use pi_gt_zero in linarith)+
    qed
  qed
qed

lemma js_rem_nonneg:
  assumes "0 \<le> x" "0 < y"
  shows "0 \<le> js_rem x y \<and> js_rem x y < y"
proof -
  have q: "0 \<le> x / y" using assms by simp
  have f1: "of_int \<lfloor>x / y\<rfloor> \<le> x / y" by simp
  have f2: "x / y < of_int \<lfloor>x / y\<rfloor> + 1" by linarith
  have "y * of_int \<lfloor>x / y\<rfloor> \<le> y * (x / y)"
    using f1 assms(2) by (intro mult_left_mono) simp_all
  then have "y * of_int \<lfloor>x / y\<rfloor> \<le> x" using assms(2) by simp
  moreover have "y * (x / y) < y * (of_int \<lfloor>x / y\<rfloor> + 1)"
    using f2 assms(2) by (intro mult_strict_left_mono) simp_all
  then have "x < y * (of_int \<lfloor>x / y\<rfloor> + 1)" using assms(2) by simp
  ultimately show ?thesis using q by (simp add: js_rem_def js_trunc_def algebra_simps)
qed

lemma js_rem_of_int:
  assumes "0 \<le> k" "0 < n"
  shows "js_rem (of_int k) (of_int n) = of_int (k mod n)"
proof -
  have "\<lfloor>(of_int k :: real) / of_int n\<rfloor> = k div n" by (rule floor_divide_of_int_eq)
  moreover have "(0::real) \<le> of_int k / of_int n" using assms by simp
  ultimately have "js_rem (of_int k) (of_int n) = of_int k - of_int n * of_int (k div n)"
    by (simp add: js_rem_def js_trunc_def)
  also have "\<dots> = of_int (k - n * (k div n))" by simp
  also have "k - n * (k div n) = k mod n" by (simp add: minus_mult_div_eq_mod)
  finally show ?thesis .
qed

lemma bearing_bounds:
  "- 180 \<le> Math_atan2 y x * 180 / pi \<and> Math_atan2 y x * 180 / pi \<le> 180"
proof -
  have b: "- pi \<le> Math_atan2 y x" "Math_atan2 y x \<le> pi"
    using Math_atan2_bounds [of y x] by simp_all
  have p: "0 < pi" by simp
  have "Math_atan2 y x * 180 \<le> 180 * pi" using b by simp
  then have u: "Math_atan2 y x * 180 / pi \<le> 180" using p by (simp add: pos_divide_le_eq)
  have "- 180 * pi \<le> Math_atan2 y x * 180" using b by simp
  then have l: "- 180 \<le> Math_atan2 y x * 180 / pi" using p by (simp add: pos_le_divide_eq)
  from l u show ?thesis by simp
qed

lemma Math_round_range:
  assumes "0 \<le> z" "z < 8"
  shows "\<exists>k. Math_round z = of_int k \<and> 0 \<le> k \<and> k \<le> 8"
proof -
  have "0 \<le> \<lfloor>z + 1 / 2\<rfloor>" using assms by simp
  moreover have "\<lfloor>z + 1 / 2\<rfloor> \<le> 8"
  proof -
    have "z + 1 / 2 < 9" using assms by simp
    then have "\<lfloor>z + 1 / 2\<rfloor> < 9" by (simp add: floor_less_iff)
    then show ?thesis by simp
  qed
  ultimately show ?thesis by (auto simp: Math_round_def)
qed

lemma getDirection_index_range:
  "\<exists>i. i < 8 \<and> getDirection_index lat1 lon1 lat2 lon2 = real i"
proof -
  define bearing where
    "bearing = Math_atan2 (sin (lon2 - lon1) * cos lat2)
       (cos lat1 * sin lat2 - sin lat1 * cos lat2 * cos (lon2 - lon1)) * 180 / pi"
  have b: "- 180 \<le> bearing" "bearing \<le> 180"
    unfolding bearing_def using bearing_bounds by blast+
  have "0 \<le> js_rem (bearing + 360) 360 \<and> js_rem (bearing + 360) 360 < 360"
    using b by (intro js_rem_nonneg) simp_all
  then have "0 \<le> js_rem (bearing + 360) 360 / 45" "js_rem (bearing + 360) 360 / 45 < 8"
    by simp_all
  then obtain k where k: "Math_round (js_rem (bearing + 360) 360 / 45) = of_int k" "0 \<le> k" "k \<le> 8"
    using Math_round_range by blast
  have "js_rem (of_int k) (of_int 8) = real_of_int (k mod 8)"
    using k(2) by (intro js_rem_of_int) simp_all
  then have idx: "getDirection_index lat1 lon1 lat2 lon2 = real_of_int (k mod 8)"
    using k(1) by (simp add: getDirection_index_def Let_def bearing_def)
  have m: "0 \<le> k mod 8" "k mod 8 < 8" by simp_all
  then have "real_of_int (k mod 8) = real (nat (k mod 8))" "nat (k mod 8) < 8" by simp_all
  with idx show ?thesis by metis
qed

lemma array_get_nat:
  "i < length xs \<Longrightarrow> array_get xs (real i) = Some (xs ! i)"
  by (simp add: array_get_def)

lemma sort_insert_insort_key:
  assumes "\<And>a b. (cmp a b \<le> 0) = (f a \<le> f b)"
  shows "sort_insert cmp x ys = insort_key f x ys"
  by (induction ys) (simp_all add: assms)

lemma Array_sort_sort_key:
  assumes "\<And>a b. (cmp a b \<le> 0) = (f a \<le> f b)"
  shows "Array_sort cmp xs = sort_key f xs"
proof -
  have "sort_insert cmp = insort_key f"
    using sort_insert_insort_key [OF assms] by (intro ext)
  then show ?thesis by (simp add: Array_sort_def sort_key_def)
qed

lemma set_sort_insert: "set (sort_insert cmp x ys) = insert x (set ys)"
  by (induction ys) auto

lemma set_Array_sort: "set (Array_sort cmp xs) = set xs"
  by (induction xs) (simp_all add: Array_sort_def set_sort_insert)

lemma mset_sort_insert: "mset (sort_insert cmp x ys) = add_mset x (mset ys)"
  by (induction ys) simp_all

lemma mset_Array_sort: "mset (Array_sort cmp xs) = mset xs"
  by (induction xs) (simp_all add: Array_sort_def mset_sort_insert)

lemma sorted_desc_key:
  "sorted (map (\<lambda>e. - f e) xs) = sorted_wrt (\<lambda>a b. (f b :: 'k::linordered_idom) \<le> f a) xs"
  by (induction xs) auto

lemma Array_sort_by_time:
  "Array_sort (\<lambda>a b. time b - time a) xs = sort_key (\<lambda>e. - time e) xs"
  by (rule Array_sort_sort_key) simp

lemma truncate_extend: "earthquake.truncate (earthquake.extend e m) = e"
  by (cases e) (simp add: earthquake.defs)

lemma extend_fields:
  "latitude (earthquake.extend e m) = latitude e"
  "longitude (earthquake.extend e m) = longitude e"
  "time (earthquake.extend e m) = time e"
  "magnitude (earthquake.extend e m) = magnitude e"
  "id' (earthquake.extend e m) = id' e"
  "depth (earthquake.extend e m) = depth e"
  "place (earthquake.extend e m) = place e"
  "distance (earthquake.extend e (located.fields d dr)) = d"
  "direction (earthquake.extend e (located.fields d dr)) = dr"
  by (simp_all add: earthquake.defs located.defs)

lemma filterEarthquakesByRadius_set:
  "set (filterEarthquakesByRadius es lat lon R) =
     {earthquake.extend e (located.fields (calculateDistance lat lon (latitude e) (longitude e))
          (getDirection lat lon (latitude e) (longitude e))) | e.
        e \<in> set es \<and> calculateDistance lat lon (latitude e) (longitude e) \<le> R}"
  by (auto simp: filterEarthquakesByRadius_def set_Array_sort extend_fields)

lemma separate_foldl:
  "foldl (\<lambda>acc eq.
            if id' eq = mid then acc
            else if time eq < T then acc\<lparr>before := before acc @ [eq]\<rparr>
            else acc\<lparr>after := after acc @ [eq]\<rparr>) acc es =
   \<lparr>before = before acc @ filter (\<lambda>e. id' e \<noteq> mid \<and> time e < T) es,
    after = after acc @ filter (\<lambda>e. id' e \<noteq> mid \<and> T \<le> time e) es\<rparr>"
  by (induction es arbitrary: acc) auto

lemma separateBeforeAfter_filter:
  "before (separateBeforeAfter es T mid) = filter (\<lambda>e. id' e \<noteq> mid \<and> time e < T) es"
  "after (separateBeforeAfter es T mid) = filter (\<lambda>e. id' e \<noteq> mid \<and> T \<le> time e) es"
  by (simp_all add: separateBeforeAfter_def separate_foldl)

lemma Array_sort_by_magnitude:
  "Array_sort (\<lambda>a b. magnitude b - magnitude a) xs = sort_key (\<lambda>e. - magnitude e) xs"
  by (rule Array_sort_sort_key) simp

lemma top_of_sorted:
  assumes "sorted_wrt R xs"
  shows "\<forall>x \<in> set (drop n xs). \<forall>y \<in> set (take n xs). R y x"
proof -
  have "sorted_wrt R (take n xs @ drop n xs)" using assms by simp
  then show ?thesis unfolding sorted_wrt_append by blast
qed

lemma mset_minus_take: "mset xs - mset (take n xs) = mset (drop n xs)"
proof -
  have "mset xs = mset (take n xs) + mset (drop n xs)"
    by (metis append_take_drop_id mset_append)
  then show ?thesis by simp
qed

lemma days_in_window:
  "(0 \<le> \<lfloor>real_of_int x / (1000 * 60 * 60 * 24)\<rfloor> \<and>
    \<lfloor>real_of_int x / (1000 * 60 * 60 * 24)\<rfloor> < 7) = (0 \<le> x \<and> x < 7 * (1000 * 60 * 60 * 24))"
  by (simp add: floor_less_iff)

text \<open>One counter per day: the fold over an abstract day function.\<close>

lemma bucket_foldl_length:
  "length (foldl (\<lambda>h e. if 0 \<le> D e \<and> D e < (7::int)
                          then h[nat (6 - D e) := h ! nat (6 - D e) + (1::nat)] else h) h0 es) =
   length h0"
  by (induction es arbitrary: h0) simp_all

lemma bucket_foldl_nth:
  assumes "length h0 = 7" "i < 7"
  shows "foldl (\<lambda>h e. if 0 \<le> D e \<and> D e < (7::int)
                        then h[nat (6 - D e) := h ! nat (6 - D e) + (1::nat)] else h) h0 es ! i =
         h0 ! i + length (filter (\<lambda>e. D e = 6 - int i) es)"
  using assms
proof (induction es arbitrary: h0)
  case Nil
  then show ?case by simp
next
  case (Cons e es)
  show ?case
  proof (cases "0 \<le> D e \<and> D e < 7")
    case True
    then have n: "nat (6 - D e) < length h0" using Cons.prems by arith
    have l: "length (h0[nat (6 - D e) := h0 ! nat (6 - D e) + 1]) = 7" using Cons.prems by simp
    have eq: "(nat (6 - D e) = i) = (D e = 6 - int i)" using True Cons.prems(2) by auto
    show ?thesis
      using True Cons.IH [OF l Cons.prems(2)] n eq
      by (auto simp: nth_list_update)
  next
    case False
    then have "D e \<noteq> 6 - int i" using Cons.prems(2) by auto
    then show ?thesis using False Cons.IH [OF Cons.prems] by auto
  qed
qed

lemma bucket_foldl_sum:
  assumes "length h0 = 7"
  shows "sum_list (foldl (\<lambda>h e. if 0 \<le> D e \<and> D e < (7::int)
                        then h[nat (6 - D e) := h ! nat (6 - D e) + (1::nat)] else h) h0 es) =
         sum_list h0 + length (filter (\<lambda>e. 0 \<le> D e \<and> D e < 7) es)"
  using assms
proof (induction es arbitrary: h0)
  case Nil
  then show ?case by simp
next
  case (Cons e es)
  show ?case
  proof (cases "0 \<le> D e \<and> D e < 7")
    case True
    then have n: "nat (6 - D e) < length h0" using Cons.prems by arith
    have l: "length (h0[nat (6 - D e) := h0 ! nat (6 - D e) + 1]) = 7" using Cons.prems by simp
    have s: "sum_list (h0[nat (6 - D e) := h0 ! nat (6 - D e) + 1]) = sum_list h0 + 1"
      using n by (simp add: sum_list_update)
    show ?thesis using True Cons.IH [OF l] s by simp
  next
    case False
    then show ?thesis using Cons.IH [OF Cons.prems] by auto
  qed
qed

lemma generateBeforeHeatmap_bucket:
  "generateBeforeHeatmap es T =
     foldl (\<lambda>h e. if 0 \<le> \<lfloor>real_of_int (T - time e) / (1000 * 60 * 60 * 24)\<rfloor> \<and>
                      \<lfloor>real_of_int (T - time e) / (1000 * 60 * 60 * 24)\<rfloor> < 7
                   then h[nat (6 - \<lfloor>real_of_int (T - time e) / (1000 * 60 * 60 * 24)\<rfloor>) :=
                            h ! nat (6 - \<lfloor>real_of_int (T - time e) / (1000 * 60 * 60 * 24)\<rfloor>) + 1]
                   else h) (replicate 7 0) es"
  unfolding generateBeforeHeatmap_def Let_def ..

lemma generateBeforeHeatmap_eq: "generateBeforeHeatmap es T = generateHeatmapData T es"
  unfolding generateBeforeHeatmap_def generateHeatmapData_def ..

lemma generateBeforeHeatmap_length: "length (generateBeforeHeatmap es T) = 7"
  unfolding generateBeforeHeatmap_bucket bucket_foldl_length by simp

lemma generateBeforeHeatmap_nth:
  assumes "i < 7"
  shows "generateBeforeHeatmap es T ! i =
           length (filter (\<lambda>e. \<lfloor>real_of_int (T - time e) / (1000 * 60 * 60 * 24)\<rfloor> = 6 - int i) es)"
proof -
  have a: "length (replicate 7 (0::nat)) = 7" by simp
  have b: "replicate 7 (0::nat) ! i = 0" using assms by simp
  show ?thesis
    unfolding generateBeforeHeatmap_bucket bucket_foldl_nth [OF a assms] b by simp
qed

lemma generateBeforeHeatmap_sum:
  "sum_list (generateBeforeHeatmap es T) =
     length (filter (\<lambda>e. 0 \<le> T - time e \<and> T - time e < 7 * (1000 * 60 * 60 * 24)) es)"
proof -
  have a: "length (replicate 7 (0::nat)) = 7" by simp
  have b: "sum_list (replicate 7 (0::nat)) = 0" by simp
  have "sum_list (generateBeforeHeatmap es T) =
          length (filter (\<lambda>e. 0 \<le> \<lfloor>real_of_int (T - time e) / (1000 * 60 * 60 * 24)\<rfloor> \<and>
                                \<lfloor>real_of_int (T - time e) / (1000 * 60 * 60 * 24)\<rfloor> < 7) es)"
    unfolding generateBeforeHeatmap_bucket
    by (simp only: bucket_foldl_sum [OF a] b add_0)
  then show ?thesis by (simp only: days_in_window)
qed

lemma calculateDistance_same: "calculateDistance 0 0 0 0 = 0"
  by (simp add: calculateDistance_def Math_atan2_def)

lemma calculateDistance_pole: "calculateDistance 0 0 90 0 = 6371 * pi / 2"
proof -
  have e1: "(90 - 0) * pi / 180 / 2 = pi / 4" by simp
  have e2: "(0 - 0) * pi / 180 / 2 = (0::real)" by simp
  have s: "sin (pi / 4) * sin (pi / 4) = (1 / 2 :: real)"
    by (simp add: sin_45)
  have a: "sin (pi / 4) * sin (pi / 4) + cos (0 * pi / 180) * cos (90 * pi / 180) * sin 0 * sin 0 =
           (1 / 2 :: real)"
    using s by simp
  have h: "1 - 1 / 2 = (1 / 2 :: real)" by simp
  have q: "0 < sqrt (1 / 2 :: real)" by simp
  then have t: "Math_atan2 (sqrt (1 / 2)) (sqrt (1 / 2)) = pi / 4"
    by (simp add: Math_atan2_def arctan_one)
  show ?thesis
    unfolding calculateDistance_def Let_def e1 e2 a h t by simp
qed

lemma getDirection_same: "getDirection 0 0 0 0 = Some ''N''"
  by (simp add: getDirection_def getDirection_index_def Math_atan2_def js_rem_def js_trunc_def
      Math_round_def array_get_def directions_def)

lemmas sample_defs = sample_mainshock_def sample_week_before_def sample_day_before_def
  sample_after_def sample_far_def sample_east_def

lemma located_at_fields:
  "earthquake.truncate (located_at e d dr) = e"
  "latitude (located_at e d dr) = latitude e"
  "longitude (located_at e d dr) = longitude e"
  "time (located_at e d dr) = time e"
  "magnitude (located_at e d dr) = magnitude e"
  "id' (located_at e d dr) = id' e"
  "distance (located_at e d dr) = d"
  "direction (located_at e d dr) = dr"
  by (simp_all add: located_at_def truncate_extend extend_fields)

lemma far_outside: "500 < calculateDistance 0 0 90 0"
proof -
  have "500 < 6371 * 2 / (2::real)" by simp
  also have "\<dots> \<le> 6371 * pi / 2" using pi_ge_two by simp
  finally show ?thesis by (simp add: calculateDistance_pole)
qed

lemma sample_radius_result:
  "filterEarthquakesByRadius [sample_day_before, sample_far, sample_east] 0 0 500 =
     [located_at sample_day_before 0 (Some ''N'')]"
  using far_outside east_outside
  by (simp add: filterEarthquakesByRadius_def Array_sort_def extend_fields sample_defs
      calculateDistance_same getDirection_same located_at_def)

lemma sample_sorted_result:
  "filterEarthquakesByRadius [sample_week_before, sample_after, sample_day_before] 0 0 500 =
     [located_at sample_after 0 (Some ''N''), located_at sample_day_before 0 (Some ''N''),
      located_at sample_week_before 0 (Some ''N'')]"
  by (simp add: filterEarthquakesByRadius_def Array_sort_def extend_fields sample_defs
      calculateDistance_same getDirection_same located_at_def)

lemma generateHeatmapData_length: "length (generateHeatmapData now es) = 7"
  using generateBeforeHeatmap_length [of es now] by (simp add: generateBeforeHeatmap_eq)

lemma generateHeatmapData_nth:
  "i < 7 \<Longrightarrow> generateHeatmapData now es ! i =
     length (filter (\<lambda>e. \<lfloor>real_of_int (now - time e) / (1000 * 60 * 60 * 24)\<rfloor> = 6 - int i) es)"
  using generateBeforeHeatmap_nth [of i es now] by (simp add: generateBeforeHeatmap_eq)

lemma generateHeatmapData_sum:
  "sum_list (generateHeatmapData now es) =
     length (filter (\<lambda>e. 0 \<le> now - time e \<and> now - time e < 7 * (1000 * 60 * 60 * 24)) es)"
  using generateBeforeHeatmap_sum [of es now] by (simp add: generateBeforeHeatmap_eq)

lemma filter_all: "\<forall>x \<in> set xs. P x \<Longrightarrow> length (filter P xs) = length xs"
  by (induction xs) simp_all

lemma sample_card_nearby:
  "filterEarthquakesByRadius [sample_mainshock, sample_week_before] 0 0 600 =
     [located_at sample_mainshock 0 (Some ''N''), located_at sample_week_before 0 (Some ''N'')]"
  by (simp add: filterEarthquakesByRadius_def Array_sort_def extend_fields sample_defs
      calculateDistance_same getDirection_same located_at_def)

lemma sample_card_before7d:
  "before7d (before (separateBeforeAfter
       (filterEarthquakesByRadius [sample_mainshock, sample_week_before] 0 0 600)
       604800000 ''m'')) 604800000 = [located_at sample_week_before 0 (Some ''N'')]"
  unfolding sample_card_nearby
  by (simp add: separateBeforeAfter_filter before7d_def located_at_fields sample_defs)

lemma heatmap_week_before:
  "generateBeforeHeatmap [located_at sample_week_before 0 (Some ''N'')] 604800000 =
     [0, 0, 0, 0, 0, 0, 0]"
  by (simp add: generateBeforeHeatmap_def located_at_fields sample_defs numeral_eq_Suc)

lemma sample_realtime_nearby:
  "filterEarthquakesByRadius [sample_week_before] 0 0 500 =
     [located_at sample_week_before 0 (Some ''N'')]"
  by (simp add: filterEarthquakesByRadius_def Array_sort_def extend_fields sample_defs
      calculateDistance_same getDirection_same located_at_def)

lemma sample_realtime_last7Days:
  "last7Days 604800000 [located_at sample_week_before 0 (Some ''N'')] =
     [located_at sample_week_before 0 (Some ''N'')]"
  by (simp add: last7Days_def located_at_fields sample_defs)

lemma sample_window_lists:
  "last7Days 604800000 [sample_day_before, sample_far] = [sample_day_before, sample_far]"
  "before7d [sample_day_before, sample_far] 604800000 = [sample_day_before, sample_far]"
  by (simp_all add: last7Days_def before7d_def sample_defs)

lemma debounced_Nil: "debounced []"
  by (simp add: debounced_def)

lemma debounced_snoc_Changed:
  assumes "debounced tr"
  shows "debounced (tr @ [Changed c0 q0])"
  unfolding debounced_def
proof (intro allI impI)
  fix pre t q post c q'
  assume eq: "tr @ [Changed c0 q0] = pre @ Fetched t q # post"
    and mem: "Changed c q' \<in> set pre"
  show "c + 300 \<le> t"
  proof (cases post rule: rev_cases)
    case Nil
    with eq have "tr @ [Changed c0 q0] = pre @ [Fetched t q]" by simp
    then show ?thesis by simp
  next
    case (snoc post' x)
    with eq have "tr @ [Changed c0 q0] = (pre @ Fetched t q # post') @ [x]" by simp
    then have "tr = pre @ Fetched t q # post'" by simp
    with assms mem show ?thesis unfolding debounced_def by blast
  qed
qed

lemma debounced_snoc_Fetched:
  assumes "debounced tr" and "\<forall>c q'. Changed c q' \<in> set tr \<longrightarrow> c + 300 \<le> t0"
  shows "debounced (tr @ [Fetched t0 q0])"
  unfolding debounced_def
proof (intro allI impI)
  fix pre t q post c q'
  assume eq: "tr @ [Fetched t0 q0] = pre @ Fetched t q # post"
    and mem: "Changed c q' \<in> set pre"
  show "c + 300 \<le> t"
  proof (cases post rule: rev_cases)
    case Nil
    with eq have "tr @ [Fetched t0 q0] = pre @ [Fetched t q]" by simp
    then have "tr = pre" "t = t0" by simp_all
    with assms(2) mem show ?thesis by blast
  next
    case (snoc post' x)
    with eq have "tr @ [Fetched t0 q0] = (pre @ Fetched t q # post') @ [x]" by simp
    then have "tr = pre @ Fetched t q # post'" by simp
    with assms(1) mem show ?thesis unfolding debounced_def by blast
  qed
qed

lemma debounce_inv_cong:
  assumes "timers s = timers s0" "debounceTimer s = debounceTimer s0"
    "searchQuery s = searchQuery s0" "trace s = trace s0" "clock s = clock s0"
  shows "debounce_inv s = debounce_inv s0"
  by (simp add: debounce_inv_def assms)

lemma cleanup_empties:
  assumes "\<forall>t due q. timers s t = Some (due, q) \<longrightarrow> debounceTimer s = Some t"
  shows "timers (debounce_cleanup s) = Map.empty"
proof (rule ext)
  fix t
  show "timers (debounce_cleanup s) t = None"
  proof (cases "timers s t")
    case None
    then show ?thesis
      by (simp add: debounce_cleanup_def clearTimeout_def split: option.splits)
  next
    case (Some a)
    obtain due q where "a = (due, q)" by (cases a)
    with Some assms have "debounceTimer s = Some t" by blast
    then show ?thesis by (simp add: debounce_cleanup_def clearTimeout_def)
  qed
qed

lemma cleanup_fields:
  "debounceTimer (debounce_cleanup s) = debounceTimer s"
  "searchQuery (debounce_cleanup s) = searchQuery s"
  "trace (debounce_cleanup s) = trace s"
  "clock (debounce_cleanup s) = clock s"
  "nextTimer (debounce_cleanup s) = nextTimer s"
  by (simp_all add: debounce_cleanup_def clearTimeout_def split: option.splits)

lemma effect_on_empty:
  assumes "timers s = Map.empty"
  shows "timers (debounce_effect s) =
           (if 3 \<le> length (trim (searchQuery s))
            then [nextTimer s \<mapsto> (clock s + 300, searchQuery s)] else Map.empty)"
    and "debounceTimer (debounce_effect s) =
           (if 3 \<le> length (trim (searchQuery s)) then Some (nextTimer s) else debounceTimer s)"
    and "searchQuery (debounce_effect s) = searchQuery s"
    and "trace (debounce_effect s) = trace s"
    and "clock (debounce_effect s) = clock s"
  using assms
  by (auto simp: debounce_effect_def clearTimeout_def setTimeout_def Let_def
      split: option.splits)

lemma after_render_changed:
  assumes named: "\<forall>t due q. timers s t = Some (due, q) \<longrightarrow> debounceTimer s = Some t"
    and past: "\<forall>c q'. Changed c q' \<in> set (trace s) \<longrightarrow> c \<le> clock s"
    and changed: "searchQuery s \<noteq> prev"
  shows "debounce_inv (after_render prev s)"
    and "trace (after_render prev s) = trace s @ [Changed (clock s) (searchQuery s)]"
    and "timers (after_render prev s) =
           (if 3 \<le> length (trim (searchQuery s))
            then [nextTimer s \<mapsto> (clock s + 300, searchQuery s)] else Map.empty)"
proof -
  define s1 where "s1 = s\<lparr>trace := trace s @ [Changed (clock s) (searchQuery s)]\<rparr>"
  define s2 where "s2 = debounce_cleanup s1"
  have r: "after_render prev s = debounce_effect s2"
    using changed by (simp add: after_render_def s1_def s2_def)
  have "\<forall>t due q. timers s1 t = Some (due, q) \<longrightarrow> debounceTimer s1 = Some t"
    using named by (simp add: s1_def)
  then have e: "timers s2 = Map.empty" unfolding s2_def by (rule cleanup_empties)
  have f: "searchQuery s2 = searchQuery s" "clock s2 = clock s" "nextTimer s2 = nextTimer s"
    "trace s2 = trace s @ [Changed (clock s) (searchQuery s)]"
    by (simp_all add: s2_def cleanup_fields s1_def)
  note eff = effect_on_empty [OF e]
  show "trace (after_render prev s) = trace s @ [Changed (clock s) (searchQuery s)]"
    by (simp add: r eff f)
  show t: "timers (after_render prev s) =
           (if 3 \<le> length (trim (searchQuery s))
            then [nextTimer s \<mapsto> (clock s + 300, searchQuery s)] else Map.empty)"
    by (simp add: r eff f)
  have p: "\<forall>c q'. Changed c q' \<in> set (trace s @ [Changed (clock s) (searchQuery s)]) \<longrightarrow>
             c \<le> clock s"
    using past by auto
  then have p3: "\<forall>c q'. Changed c q' \<in> set (trace s @ [Changed (clock s) (searchQuery s)]) \<longrightarrow>
             c + 300 \<le> clock s + 300"
    by auto
  show "debounce_inv (after_render prev s)"
    unfolding debounce_inv_def r
    using p p3 by (simp add: eff f split: if_splits)
qed

lemma after_render_inv:
  assumes "debounce_inv s0"
    and "timers s = timers s0" "debounceTimer s = debounceTimer s0"
    and "trace s = trace s0" "clock s = clock s0"
  shows "debounce_inv (after_render (searchQuery s0) s)"
proof (cases "searchQuery s = searchQuery s0")
  case True
  then have "debounce_inv s = debounce_inv s0" using assms(2-5) by (intro debounce_inv_cong)
  with assms(1) True show ?thesis by (simp add: after_render_def)
next
  case False
  have "\<forall>t due q. timers s t = Some (due, q) \<longrightarrow> debounceTimer s = Some t"
    using assms unfolding debounce_inv_def by simp
  moreover have "\<forall>c q'. Changed c q' \<in> set (trace s) \<longrightarrow> c \<le> clock s"
    using assms unfolding debounce_inv_def by simp
  ultimately show ?thesis using False by (rule after_render_changed(1))
qed

lemma after_render_debounced:
  assumes "debounced (trace s)"
  shows "debounced (trace (after_render prev s))"
proof (cases "searchQuery s = prev")
  case True
  with assms show ?thesis by (simp add: after_render_def)
next
  case False
  have "trace (after_render prev s) = trace s @ [Changed (clock s) (searchQuery s)]"
    using False
    by (simp add: after_render_def debounce_effect_def debounce_cleanup_def clearTimeout_def
        setTimeout_def Let_def split: option.splits)
  with assms show ?thesis by (simp add: debounced_snoc_Changed)
qed

lemma begin_fields:
  "timers (fetchSuggestions_begin q s) = timers s"
  "debounceTimer (fetchSuggestions_begin q s) = debounceTimer s"
  "searchQuery (fetchSuggestions_begin q s) = searchQuery s"
  "clock (fetchSuggestions_begin q s) = clock s"
  "trace (fetchSuggestions_begin q s) =
     (if q = [] \<or> length q < 3 then trace s else trace s @ [Fetched (clock s) q])"
  by (simp_all add: fetchSuggestions_begin_def Let_def)

lemma resume_fields:
  "timers (fetchSuggestions_resume s r) = timers s"
  "debounceTimer (fetchSuggestions_resume s r) = debounceTimer s"
  "searchQuery (fetchSuggestions_resume s r) = searchQuery s"
  "clock (fetchSuggestions_resume s r) = clock s"
  "trace (fetchSuggestions_resume s r) = trace s"
  by (simp_all add: fetchSuggestions_resume_def Let_def split: sum.splits option.splits list.splits)

lemma step_inv:
  assumes "debounce_inv s" "debounced (trace s)"
  shows "debounce_inv (step s ev) \<and> debounced (trace (step s ev))"
proof (cases ev)
  case (Input v)
  have "debounce_inv (after_render (searchQuery s) (s\<lparr>searchQuery := v\<rparr>))"
    using assms(1) by (rule after_render_inv) simp_all
  moreover have "debounced (trace (after_render (searchQuery s) (s\<lparr>searchQuery := v\<rparr>)))"
    using assms(2) by (intro after_render_debounced) simp
  ultimately show ?thesis using Input by (simp add: handleInputChange_def)
next
  case Clear
  have "debounce_inv (after_render (searchQuery s)
          (s\<lparr>searchQuery := [], suggestions := [], error := None\<rparr>))"
    using assms(1) by (rule after_render_inv) simp_all
  moreover have "debounced (trace (after_render (searchQuery s)
          (s\<lparr>searchQuery := [], suggestions := [], error := None\<rparr>)))"
    using assms(2) by (intro after_render_debounced) simp
  ultimately show ?thesis using Clear by (simp add: handleClear_def)
next
  case (Select sg)
  have "debounce_inv (after_render (searchQuery s)
          (s\<lparr>searchQuery := suggestion_name sg, suggestions := [], isFocused := False\<rparr>))"
    using assms(1) by (rule after_render_inv) simp_all
  moreover have "debounced (trace (after_render (searchQuery s)
          (s\<lparr>searchQuery := suggestion_name sg, suggestions := [], isFocused := False\<rparr>)))"
    using assms(2) by (intro after_render_debounced) simp
  ultimately show ?thesis using Select by (simp add: handleSelectSuggestion_def)
next
  case (Wait d)
  have "debounce_inv (s\<lparr>clock := clock s + d\<rparr>)"
    using assms(1) unfolding debounce_inv_def by (auto intro: trans_le_add1)
  with assms(2) Wait show ?thesis by simp
next
  case (Fire t)
  show ?thesis
  proof (cases "timers s t")
    case None
    with Fire assms show ?thesis by simp
  next
    case (Some a)
    obtain due q where a: "a = (due, q)" by (cases a)
    show ?thesis
    proof (cases "due \<le> clock s")
      case False
      with Fire Some a assms show ?thesis by simp
    next
      case True
      define s1 where "s1 = s\<lparr>timers := (timers s)(t := None)\<rparr>"
      have st: "step s ev = fetchSuggestions_begin q s1"
        using Fire Some a True by (simp add: s1_def)
      have late: "\<forall>c q'. Changed c q' \<in> set (trace s) \<longrightarrow> c + 300 \<le> clock s"
      proof (intro allI impI)
        fix c q'
        assume "Changed c q' \<in> set (trace s)"
        with assms(1) Some a have "c + 300 \<le> due" unfolding debounce_inv_def by blast
        with True show "c + 300 \<le> clock s" by simp
      qed
      have i1: "debounce_inv s1"
        using assms(1) unfolding debounce_inv_def s1_def by (auto split: if_splits)
      have "debounce_inv (fetchSuggestions_begin q s1) = debounce_inv s1"
        unfolding debounce_inv_def by (simp add: begin_fields)
      with i1 have "debounce_inv (fetchSuggestions_begin q s1)" by simp
      moreover have "debounced (trace (fetchSuggestions_begin q s1))"
        using assms(2) late
        by (simp add: begin_fields s1_def debounced_snoc_Fetched)
      ultimately show ?thesis by (simp add: st)
    qed
  qed
next
  case (Settle r)
  have "debounce_inv (fetchSuggestions_resume s r) = debounce_inv s"
    by (intro debounce_inv_cong) (simp_all add: resume_fields)
  with assms Settle show ?thesis by (simp add: resume_fields)
qed

lemma mounted_inv: "debounce_inv (SearchBar_mounted t0) \<and> debounced (trace (SearchBar_mounted t0))"
  by (simp add: SearchBar_mounted_def debounce_effect_def debounce_inv_def debounced_Nil trim_def)

lemma run_inv:
  assumes "debounce_inv s" "debounced (trace s)"
  shows "debounce_inv (run s evs) \<and> debounced (trace (run s evs))"
  using assms unfolding run_def
proof (induction evs arbitrary: s)
  case Nil
  then show ?case by simp
next
  case (Cons ev evs)
  from step_inv [OF Cons.prems] have "debounce_inv (step s ev)" "debounced (trace (step s ev))"
    by simp_all
  from Cons.IH [OF this] show ?case by simp
qed

lemmas search_bar_defs = run_def SearchBar_mounted_def handleInputChange_def handleClear_def
  handleSelectSuggestion_def after_render_def debounce_effect_def debounce_cleanup_def
  clearTimeout_def setTimeout_def fetchSuggestions_begin_def Let_def trim_def is_space_def

lemma sample_short_query:
  "trace (run (SearchBar_mounted 0) [Input ''par'', Wait 100, Input ''pa'']) =
     [Changed 0 ''par'', Changed 100 ''pa''] \<and>
   timers (run (SearchBar_mounted 0) [Input ''par'', Wait 100]) = [1 \<mapsto> (300, ''par'')] \<and>
   timers (run (SearchBar_mounted 0) [Input ''par'', Wait 100, Input ''pa'']) = Map.empty"
  by (simp add: search_bar_defs)

lemma sample_debounced_run:
  "trace (run (SearchBar_mounted 0)
            [Input ''par'', Wait 200, Input ''pari'', Wait 200, Fire 1, Fire 2, Wait 100, Fire 2]) =
     [Changed 0 ''par'', Changed 200 ''pari'', Fetched 500 ''pari'']"
  by (simp add: search_bar_defs)

lemma sample_new_timer:
  "searchQuery (run (SearchBar_mounted 0) [Input ''par'', Wait 200]) = ''par'' \<and>
   nextTimer (run (SearchBar_mounted 0) [Input ''par'', Wait 200]) = 2 \<and>
   clock (run (SearchBar_mounted 0) [Input ''par'', Wait 200]) = 200 \<and>
   timers (run (SearchBar_mounted 0) [Input ''par'', Wait 200]) = [1 \<mapsto> (300, ''par'')] \<and>
   length (trim ''pari'') = 4"
  by (simp add: search_bar_defs)

lemma sample_before_card:
  "countBefore (EarthquakeActivityCard sample_mainshock [sample_mainshock, sample_week_before]) = 1 \<and>
   beforeHeatmapData (EarthquakeActivityCard sample_mainshock [sample_mainshock, sample_week_before]) =
     [0, 0, 0, 0, 0, 0, 0] \<and>
   sum_list (beforeHeatmapData
       (EarthquakeActivityCard sample_mainshock [sample_mainshock, sample_week_before])) \<noteq>
     countBefore (EarthquakeActivityCard sample_mainshock [sample_mainshock, sample_week_before])"
proof -
  have r: "getMagnitudeBasedRadius (magnitude sample_mainshock) = 600"
    by (simp add: getMagnitudeBasedRadius_def sample_defs)
  have c: "latitude sample_mainshock = 0" "longitude sample_mainshock = 0"
    "time sample_mainshock = 604800000" "id' sample_mainshock = ''m''"
    by (simp_all add: sample_defs)
  show ?thesis
    unfolding EarthquakeActivityCard_def Let_def r c sample_card_before7d heatmap_week_before
    by simp
qed

lemma sample_realtime_card:
  "count7d (RealTimeActivityCard 0 0 [sample_week_before] 604800000 604800000) = 1 \<and>
   heatmapData (RealTimeActivityCard 0 0 [sample_week_before] 604800000 604800000) =
     [0, 0, 0, 0, 0, 0, 0] \<and>
   sum_list (heatmapData (RealTimeActivityCard 0 0 [sample_week_before] 604800000 604800000)) \<noteq>
     count7d (RealTimeActivityCard 0 0 [sample_week_before] 604800000 604800000)"
  unfolding RealTimeActivityCard_def Let_def sample_realtime_nearby sample_realtime_last7Days
    generateBeforeHeatmap_eq [symmetric] heatmap_week_before
  by simp

section \<open>The claims\<close>

text \<open>
  Claim C1. \<^verbatim>\<open>calculateDistance\<close> is the haversine formula with Earth radius 6371 km, and
  its value is the great-circle distance between the two points. For every list of
  earthquake records, every query point and every radius \<open>R\<close>,
  \<^verbatim>\<open>filterEarthquakesByRadius\<close> returns only events of the list whose great-circle distance
  from the query point is at most \<open>R\<close>; no event at a distance greater than \<open>R\<close> appears in
  the result.
\<close>

theorem filterEarthquakesByRadius_within_radius:
  "(\<forall>r \<in> set (filterEarthquakesByRadius es lat lon R).
      earthquake.truncate r \<in> set es \<and>
      distance r = calculateDistance lat lon (latitude r) (longitude r) \<and>
      calculateDistance lat lon (latitude r) (longitude r) \<le> R \<and>
      distance r = great_circle_distance lat lon (latitude r) (longitude r) \<and>
      great_circle_distance lat lon (latitude r) (longitude r) \<le> R) \<and>
   (\<forall>e \<in> set es. R < calculateDistance lat lon (latitude e) (longitude e) \<longrightarrow>
      e \<notin> earthquake.truncate ` set (filterEarthquakesByRadius es lat lon R)) \<and>
   (\<forall>e \<in> set es. R < great_circle_distance lat lon (latitude e) (longitude e) \<longrightarrow>
      e \<notin> earthquake.truncate ` set (filterEarthquakesByRadius es lat lon R)) \<and>
   calculateDistance lat1 lon1 lat2 lon2 = great_circle_distance lat1 lon1 lat2 lon2 \<and>
   calculateDistance lat1 lon1 lat2 lon2 =
     2 * 6371 * arcsin (sqrt (hav ((lat2 - lat1) * pi / 180) +
        cos (lat1 * pi / 180) * cos (lat2 * pi / 180) * hav ((lon2 - lon1) * pi / 180)))"
proof -
  have g: "\<And>a b c d. great_circle_distance a b c d = calculateDistance a b c d"
    using calculateDistance_formulas by simp
  have "(\<forall>r \<in> set (filterEarthquakesByRadius es lat lon R).
      earthquake.truncate r \<in> set es \<and>
      distance r = calculateDistance lat lon (latitude r) (longitude r) \<and>
      calculateDistance lat lon (latitude r) (longitude r) \<le> R) \<and>
   (\<forall>e \<in> set es. R < calculateDistance lat lon (latitude e) (longitude e) \<longrightarrow>
      e \<notin> earthquake.truncate ` set (filterEarthquakesByRadius es lat lon R))"
    by (auto simp: filterEarthquakesByRadius_set truncate_extend extend_fields)
  then show ?thesis
    unfolding g using calculateDistance_formulas [of lat1 lon1 lat2 lon2] unfolding g by blast
qed

theorem filterEarthquakesByRadius_within_radius_witness:
  "located_at sample_day_before 0 (Some ''N'') \<in>
     set (filterEarthquakesByRadius [sample_day_before, sample_far, sample_east] 0 0 500) \<and>
   great_circle_distance 0 0 (latitude sample_day_before) (longitude sample_day_before) = 0 \<and>
   great_circle_distance 0 0 (latitude sample_day_before) (longitude sample_day_before) \<le> 500 \<and>
   sample_east \<in> set [sample_day_before, sample_far, sample_east] \<and>
   great_circle_distance 0 0 (latitude sample_east) (longitude sample_east) = 6371 * pi / 2 \<and>
   calculateDistance 0 0 0 90 = 6371 * pi / 2 \<and>
   calculateDistance 0 0 0 90 = 2 * 6371 * arcsin (sqrt (1 / 2)) \<and>
   500 < great_circle_distance 0 0 (latitude sample_east) (longitude sample_east) \<and>
   sample_east \<notin> earthquake.truncate `
     set (filterEarthquakesByRadius [sample_day_before, sample_far, sample_east] 0 0 500) \<and>
   500 < great_circle_distance 0 0 (latitude sample_far) (longitude sample_far) \<and>
   sample_far \<notin> earthquake.truncate `
     set (filterEarthquakesByRadius [sample_day_before, sample_far, sample_east] 0 0 500)"
proof -
  note t = filterEarthquakesByRadius_within_radius
    [of "[sample_day_before, sample_far, sample_east]" 0 0 500 0 0 0 90]
  have m: "located_at sample_day_before 0 (Some ''N'') \<in>
     set (filterEarthquakesByRadius [sample_day_before, sample_far, sample_east] 0 0 500)"
    by (simp add: sample_radius_result)
  with t have "great_circle_distance 0 0 (latitude (located_at sample_day_before 0 (Some ''N'')))
      (longitude (located_at sample_day_before 0 (Some ''N''))) \<le> 500"
    by blast
  then have n: "great_circle_distance 0 0 (latitude sample_day_before)
      (longitude sample_day_before) \<le> 500"
    by (simp add: located_at_fields)
  have z: "great_circle_distance 0 0 (latitude sample_day_before)
      (longitude sample_day_before) = 0"
    by (simp add: sample_defs great_circle_quarter)
  have q: "great_circle_distance 0 0 (latitude sample_east) (longitude sample_east) = 6371 * pi / 2"
    "great_circle_distance 0 0 (latitude sample_far) (longitude sample_far) = 6371 * pi / 2"
    by (simp_all add: sample_defs great_circle_quarter)
  from t have "calculateDistance 0 0 0 90 = great_circle_distance 0 0 0 90" by blast
  then have c: "calculateDistance 0 0 0 90 = 6371 * pi / 2"
    by (simp add: great_circle_quarter)
  have v: "hav ((0 - 0) * pi / 180) + cos (0 * pi / 180) * cos (0 * pi / 180) *
          hav ((90 - 0) * pi / 180) = 1 / 2"
    by (simp add: hav_def sin_45)
  from t have "calculateDistance 0 0 0 90 =
     2 * 6371 * arcsin (sqrt (hav ((0 - 0) * pi / 180) +
        cos (0 * pi / 180) * cos (0 * pi / 180) * hav ((90 - 0) * pi / 180)))"
    by blast
  then have h: "calculateDistance 0 0 0 90 = 2 * 6371 * arcsin (sqrt (1 / 2))"
    unfolding v .
  have "500 < 6371 * 2 / (2::real)" by simp
  also have "\<dots> \<le> 6371 * pi / 2" using pi_ge_two by simp
  finally have f: "500 < great_circle_distance 0 0 (latitude sample_east) (longitude sample_east)"
    "500 < great_circle_distance 0 0 (latitude sample_far) (longitude sample_far)"
    by (simp_all add: q)
  have e: "sample_east \<in> set [sample_day_before, sample_far, sample_east]"
    "sample_far \<in> set [sample_day_before, sample_far, sample_east]" by simp_all
  with t f have x: "sample_east \<notin> earthquake.truncate `
     set (filterEarthquakesByRadius [sample_day_before, sample_far, sample_east] 0 0 500)"
    "sample_far \<notin> earthquake.truncate `
     set (filterEarthquakesByRadius [sample_day_before, sample_far, sample_east] 0 0 500)"
    by blast+
  from m n z e(1) q(1) c h f x show ?thesis by blast
qed

text \<open>
  Claim C4. For every list of events, every mainshock time \<open>T\<close> and mainshock id,
  \<^verbatim>\<open>separateBeforeAfter\<close> places an event in the group \<open>before\<close> iff its id is not the
  mainshock's and its timestamp is strictly less than \<open>T\<close>, and in the group \<open>after\<close> iff its
  id is not the mainshock's and its timestamp is at least \<open>T\<close>. An event with the
  mainshock's id is in neither group; every other event is in exactly one; the groups hold
  nothing else.
\<close>

theorem separateBeforeAfter_partition:
  "(\<forall>e \<in> set es.
      (e \<in> set (before (separateBeforeAfter es T mid)) \<longleftrightarrow> id' e \<noteq> mid \<and> time e < T) \<and>
      (e \<in> set (after (separateBeforeAfter es T mid)) \<longleftrightarrow> id' e \<noteq> mid \<and> T \<le> time e) \<and>
      (id' e = mid \<longrightarrow>
         e \<notin> set (before (separateBeforeAfter es T mid)) \<and>
         e \<notin> set (after (separateBeforeAfter es T mid))) \<and>
      (id' e \<noteq> mid \<longrightarrow>
         (e \<in> set (before (separateBeforeAfter es T mid))) \<noteq>
         (e \<in> set (after (separateBeforeAfter es T mid))))) \<and>
   set (before (separateBeforeAfter es T mid)) \<union> set (after (separateBeforeAfter es T mid))
     \<subseteq> set es \<and>
   mset (before (separateBeforeAfter es T mid)) + mset (after (separateBeforeAfter es T mid)) =
     mset (filter (\<lambda>e. id' e \<noteq> mid) es)"
proof -
  have "mset (filter (\<lambda>e. id' e \<noteq> mid \<and> time e < T) es) +
        mset (filter (\<lambda>e. id' e \<noteq> mid \<and> T \<le> time e) es) =
        mset (filter (\<lambda>e. id' e \<noteq> mid) es)"
    by (induction es) auto
  then show ?thesis by (auto simp: separateBeforeAfter_filter)
qed

theorem separateBeforeAfter_partition_witness:
  "sample_week_before \<in> set [sample_mainshock, sample_week_before, sample_after] \<and>
   sample_week_before \<in> set (before (separateBeforeAfter
      [sample_mainshock, sample_week_before, sample_after] 604800000 ''m'')) \<and>
   sample_after \<in> set (after (separateBeforeAfter
      [sample_mainshock, sample_week_before, sample_after] 604800000 ''m'')) \<and>
   sample_mainshock \<notin> set (before (separateBeforeAfter
      [sample_mainshock, sample_week_before, sample_after] 604800000 ''m'')) \<and>
   sample_mainshock \<notin> set (after (separateBeforeAfter
      [sample_mainshock, sample_week_before, sample_after] 604800000 ''m''))"
  using separateBeforeAfter_partition
    [of "[sample_mainshock, sample_week_before, sample_after]" 604800000 "''m''"]
  by (simp add: sample_defs)

text \<open>
  Claim C5. For every list of events that precede a mainshock at time \<open>T\<close>,
  \<^verbatim>\<open>identifyForeshocks\<close> returns events with timestamp in \<open>[T - 7 days, T)\<close> and magnitude at
  least 3.5, in descending order of magnitude, and keeps the top five: as many as there are
  such events, up to five, and none that is left out has a greater magnitude than one that
  is returned.
\<close>

theorem identifyForeshocks_top5:
  assumes "\<forall>e \<in> set es. time e < T"
  shows "length (identifyForeshocks es T) =
           min 5 (length (filter (\<lambda>e. T - 7 * 24 * 60 * 60 * 1000 \<le> time e \<and> time e < T \<and>
                                       3.5 \<le> magnitude e) es)) \<and>
         sorted_wrt (\<lambda>a b. magnitude b \<le> magnitude a) (identifyForeshocks es T) \<and>
         mset (identifyForeshocks es T) \<subseteq>#
           mset (filter (\<lambda>e. T - 7 * 24 * 60 * 60 * 1000 \<le> time e \<and> time e < T \<and>
                              3.5 \<le> magnitude e) es) \<and>
         (\<forall>x \<in># mset (filter (\<lambda>e. T - 7 * 24 * 60 * 60 * 1000 \<le> time e \<and> time e < T \<and>
                                   3.5 \<le> magnitude e) es) - mset (identifyForeshocks es T).
            \<forall>y \<in> set (identifyForeshocks es T). magnitude x \<le> magnitude y)"
proof -
  define fs where
    "fs = filter (\<lambda>e. T - 7 * 24 * 60 * 60 * 1000 \<le> time e \<and> 3.5 \<le> magnitude e) es"
  define srt where "srt = sort_key (\<lambda>e. - magnitude e) fs"
  have Q: "filter (\<lambda>e. T - 7 * 24 * 60 * 60 * 1000 \<le> time e \<and> time e < T \<and>
                        3.5 \<le> magnitude e) es = fs"
    unfolding fs_def using assms by (intro filter_cong) auto
  have r: "identifyForeshocks es T = take 5 srt"
    by (simp add: identifyForeshocks_def Array_sort_by_magnitude srt_def fs_def)
  have len: "length srt = length fs" by (simp add: srt_def)
  have ms: "mset srt = mset fs" by (simp add: srt_def)
  have "sorted (map (\<lambda>e. - magnitude e) srt)" unfolding srt_def by (rule sorted_sort_key)
  then have s: "sorted_wrt (\<lambda>a b. magnitude b \<le> magnitude a) srt"
    by (simp add: sorted_desc_key)
  have 1: "length (take 5 srt) = min 5 (length fs)" using len by simp
  have 2: "sorted_wrt (\<lambda>a b. magnitude b \<le> magnitude a) (take 5 srt)"
    using s by (rule sorted_wrt_take)
  have "mset (take 5 srt) \<subseteq># mset srt"
    by (metis append_take_drop_id mset_append mset_subset_eq_add_left)
  then have 3: "mset (take 5 srt) \<subseteq># mset fs" using ms by simp
  have "mset fs - mset (take 5 srt) = mset (drop 5 srt)"
    using mset_minus_take [of srt 5] ms by simp
  then have 4: "\<forall>x \<in># mset fs - mset (take 5 srt). \<forall>y \<in> set (take 5 srt).
                  magnitude x \<le> magnitude y"
    using top_of_sorted [OF s, of 5] by simp
  from 1 2 3 4 show ?thesis unfolding Q r by blast
qed

theorem identifyForeshocks_top5_witness:
  "time sample_week_before < 604800000 \<and> time sample_day_before < 604800000 \<and>
   identifyForeshocks [sample_week_before, sample_day_before] 604800000 =
     [sample_day_before, sample_week_before] \<and>
   length (identifyForeshocks [sample_week_before, sample_day_before] 604800000) = 2 \<and>
   sorted_wrt (\<lambda>a b. magnitude b \<le> magnitude a)
     (identifyForeshocks [sample_week_before, sample_day_before] 604800000)"
proof -
  have h: "\<forall>e \<in> set [sample_week_before, sample_day_before]. time e < 604800000"
    by (simp add: sample_defs)
  have r: "identifyForeshocks [sample_week_before, sample_day_before] 604800000 =
     [sample_day_before, sample_week_before]"
    by (simp add: identifyForeshocks_def Array_sort_def sample_defs)
  from identifyForeshocks_top5 [OF h] h r show ?thesis
    by (simp add: sample_defs)
qed

text \<open>
  Claim C8. For every pair of coordinate pairs, the index that \<^verbatim>\<open>getDirection\<close> computes,
  \<^verbatim>\<open>Math.round(((bearing + 360) % 360) / 45) % 8\<close>, is one of the integers \<open>0, \<dots>, 7\<close>; the
  array read is in bounds, and the function returns one of the eight strings
  N, NE, E, SE, S, SW, W, NW, never \<^verbatim>\<open>undefined\<close>.
\<close>

theorem getDirection_in_bounds:
  "\<exists>i. i < 8 \<and> getDirection_index lat1 lon1 lat2 lon2 = real i \<and>
       getDirection lat1 lon1 lat2 lon2 = Some (directions ! i) \<and>
       directions ! i \<in> {''N'', ''NE'', ''E'', ''SE'', ''S'', ''SW'', ''W'', ''NW''}"
proof -
  obtain i where i: "i < 8" "getDirection_index lat1 lon1 lat2 lon2 = real i"
    using getDirection_index_range by blast
  have len: "length directions = 8" by (simp add: directions_def)
  have g: "getDirection lat1 lon1 lat2 lon2 = Some (directions ! i)"
    using i len by (simp add: getDirection_def array_get_nat)
  have "directions ! i \<in> set directions" using i len by simp
  then have "directions ! i \<in> {''N'', ''NE'', ''E'', ''SE'', ''S'', ''SW'', ''W'', ''NW''}"
    by (simp add: directions_def)
  with i g show ?thesis by blast
qed

text \<open>
  Claim C9. For every magnitude \<open>m\<close>, \<^verbatim>\<open>calculateHazardZones\<close> returns three strictly
  positive radii with critical < high < moderate: they are 0.3, 0.6 and 1.0 times the base
  radius \<open>10 ^ (m - 2) * 1000\<close>.
\<close>

theorem calculateHazardZones_nested:
  "0 < critical (calculateHazardZones m) \<and>
   critical (calculateHazardZones m) < high (calculateHazardZones m) \<and>
   high (calculateHazardZones m) < moderate (calculateHazardZones m) \<and>
   critical (calculateHazardZones m) = 0.3 * (10 powr (m - 2) * 1000) \<and>
   high (calculateHazardZones m) = 0.6 * (10 powr (m - 2) * 1000) \<and>
   moderate (calculateHazardZones m) = 1.0 * (10 powr (m - 2) * 1000)"
proof -
  have "(0::real) < 10 powr (m - 2)" by simp
  then show ?thesis by (simp add: calculateHazardZones_def Math_pow_def Let_def)
qed

text \<open>
  Claim C10. The list returned by \<^verbatim>\<open>filterEarthquakesByRadius\<close> is sorted in non-increasing
  order of timestamp (most recent first); every record in it is an event of the input with
  all its fields unchanged, and carries the added fields \<open>distance\<close> and \<open>direction\<close>
  computed from the query point and the event's coordinates.
\<close>

theorem filterEarthquakesByRadius_sorted_fields:
  "sorted_wrt (\<lambda>a b. time b \<le> time a) (filterEarthquakesByRadius es lat lon R) \<and>
   (\<forall>r \<in> set (filterEarthquakesByRadius es lat lon R).
      earthquake.truncate r \<in> set es \<and>
      distance r = calculateDistance lat lon (latitude r) (longitude r) \<and>
      direction r = getDirection lat lon (latitude r) (longitude r))"
proof -
  have "sorted (map (\<lambda>e. - time e) (filterEarthquakesByRadius es lat lon R))"
    unfolding filterEarthquakesByRadius_def Array_sort_by_time by (rule sorted_sort_key)
  then have "sorted_wrt (\<lambda>a b. time b \<le> time a) (filterEarthquakesByRadius es lat lon R)"
    by (simp add: sorted_desc_key)
  moreover have "\<forall>r \<in> set (filterEarthquakesByRadius es lat lon R).
      earthquake.truncate r \<in> set es \<and>
      distance r = calculateDistance lat lon (latitude r) (longitude r) \<and>
      direction r = getDirection lat lon (latitude r) (longitude r)"
    by (auto simp: filterEarthquakesByRadius_set truncate_extend extend_fields)
  ultimately show ?thesis by blast
qed

theorem filterEarthquakesByRadius_sorted_fields_witness:
  "filterEarthquakesByRadius [sample_week_before, sample_after, sample_day_before] 0 0 500 =
     [located_at sample_after 0 (Some ''N''), located_at sample_day_before 0 (Some ''N''),
      located_at sample_week_before 0 (Some ''N'')] \<and>
   sorted_wrt (\<lambda>a b. time b \<le> time a)
     [located_at sample_after 0 (Some ''N''), located_at sample_day_before 0 (Some ''N''),
      located_at sample_week_before 0 (Some ''N'')] \<and>
   earthquake.truncate (located_at sample_after 0 (Some ''N'')) \<in>
     set [sample_week_before, sample_after, sample_day_before] \<and>
   distance (located_at sample_after 0 (Some ''N'')) = calculateDistance 0 0 0 0 \<and>
   direction (located_at sample_after 0 (Some ''N'')) = getDirection 0 0 0 0"
proof -
  note t = filterEarthquakesByRadius_sorted_fields
    [of "[sample_week_before, sample_after, sample_day_before]" 0 0 500]
  have m: "located_at sample_after 0 (Some ''N'') \<in>
    set (filterEarthquakesByRadius [sample_week_before, sample_after, sample_day_before] 0 0 500)"
    by (simp add: sample_sorted_result)
  from t have s: "sorted_wrt (\<lambda>a b. time b \<le> time a)
     [located_at sample_after 0 (Some ''N''), located_at sample_day_before 0 (Some ''N''),
      located_at sample_week_before 0 (Some ''N'')]"
    unfolding sample_sorted_result by blast
  from t m have "earthquake.truncate (located_at sample_after 0 (Some ''N'')) \<in>
     set [sample_week_before, sample_after, sample_day_before] \<and>
     distance (located_at sample_after 0 (Some ''N'')) =
       calculateDistance 0 0 (latitude (located_at sample_after 0 (Some ''N'')))
         (longitude (located_at sample_after 0 (Some ''N''))) \<and>
     direction (located_at sample_after 0 (Some ''N'')) =
       getDirection 0 0 (latitude (located_at sample_after 0 (Some ''N'')))
         (longitude (located_at sample_after 0 (Some ''N'')))"
    by blast
  then show ?thesis using s sample_sorted_result
    by (simp add: located_at_fields sample_after_def)
qed

text \<open>
  Claim C6. When the fetch fails (the promise is rejected), \<^verbatim>\<open>loadEarthquakes\<close> and
  \<^verbatim>\<open>fetchPredictions\<close> catch the exception, set the error string shown to the user and
  clear the loading flag; no second request is sent, and the earthquakes list, respectively
  the predictions, are what they were.
\<close>

theorem failed_fetch_handled:
  "error (loadEarthquakes_resume s0 s (Inl err)) =
     Some ''Failed to load earthquakes. Please try again.'' \<and>
   loading (loadEarthquakes_resume s0 s (Inl err)) = False \<and>
   earthquakes (loadEarthquakes_resume s0 s (Inl err)) = earthquakes s \<and>
   recentRequests (loadEarthquakes_resume s0 s (Inl err)) = recentRequests s \<and>
   earthquakes (loadEarthquakes_begin s) = earthquakes s \<and>
   loadEarthquakes s (Inl err) =
     s\<lparr>loading := False, error := Some ''Failed to load earthquakes. Please try again.'',
       console := console s @ [err],
       recentRequests := recentRequests s @ [(timeFilter s, 4.0)]\<rparr> \<and>
   error (fetchPredictions_resume d (Inl err)) = Some ''Failed to load predictions'' \<and>
   loading (fetchPredictions_resume d (Inl err)) = False \<and>
   predictions (fetchPredictions_resume d (Inl err)) = predictions d \<and>
   predictRequests (fetchPredictions_resume d (Inl err)) = predictRequests d \<and>
   predictions (fetchPredictions_begin eq d) = predictions d \<and>
   fetchPredictions eq d (Inl err) =
     d\<lparr>loading := False, error := Some ''Failed to load predictions'',
       console := console d @ [err],
       predictRequests := predictRequests d @ [(magnitude eq, latitude eq, longitude eq)]\<rparr>"
  by (simp add: loadEarthquakes_def loadEarthquakes_begin_def loadEarthquakes_resume_def
      fetchPredictions_def fetchPredictions_begin_def fetchPredictions_resume_def Let_def)

text \<open>
  Claim C2, amended. For every list of events filtered to the seven-day window
  (\<^verbatim>\<open>last7Days\<close>, \<^verbatim>\<open>before7d\<close>) in which every event is at least 0 ms and less than seven
  days older than the reference time, the heatmap has seven counters, each event is counted
  in the counter \<open>6 - \<lfloor>age in days\<rfloor>\<close>, and the counters sum to the length of the filtered
  list.
\<close>

theorem heatmap_sum_within_window:
  "((\<forall>e \<in> set (last7Days now es).
        0 \<le> now' - time e \<and> now' - time e < 7 * (1000 * 60 * 60 * 24)) \<longrightarrow>
      length (generateHeatmapData now' (last7Days now es)) = 7 \<and>
      sum_list (generateHeatmapData now' (last7Days now es)) = length (last7Days now es) \<and>
      (\<forall>i < 7. generateHeatmapData now' (last7Days now es) ! i =
         length (filter (\<lambda>e. \<lfloor>real_of_int (now' - time e) / (1000 * 60 * 60 * 24)\<rfloor> = 6 - int i)
                   (last7Days now es)))) \<and>
   ((\<forall>e \<in> set (before7d bs T).
        0 \<le> T - time e \<and> T - time e < 7 * (1000 * 60 * 60 * 24)) \<longrightarrow>
      length (generateBeforeHeatmap (before7d bs T) T) = 7 \<and>
      sum_list (generateBeforeHeatmap (before7d bs T) T) = length (before7d bs T) \<and>
      (\<forall>i < 7. generateBeforeHeatmap (before7d bs T) T ! i =
         length (filter (\<lambda>e. \<lfloor>real_of_int (T - time e) / (1000 * 60 * 60 * 24)\<rfloor> = 6 - int i)
                   (before7d bs T))))"
proof -
  have a: "sum_list (generateHeatmapData now' xs) = length xs"
    if "\<forall>e \<in> set xs. 0 \<le> now' - time e \<and> now' - time e < 7 * (1000 * 60 * 60 * 24)"
    for xs :: "'a earthquake_scheme list"
    unfolding generateHeatmapData_sum using that by (rule filter_all)
  have b: "sum_list (generateBeforeHeatmap xs T) = length xs"
    if "\<forall>e \<in> set xs. 0 \<le> T - time e \<and> T - time e < 7 * (1000 * 60 * 60 * 24)"
    for xs :: "'b earthquake_scheme list"
    unfolding generateBeforeHeatmap_sum using that by (rule filter_all)
  show ?thesis
    using a b
    by (simp add: generateHeatmapData_length generateHeatmapData_nth
        generateBeforeHeatmap_length generateBeforeHeatmap_nth)
qed

theorem heatmap_sum_within_window_witness:
  "last7Days 604800000 [sample_day_before, sample_far] = [sample_day_before, sample_far] \<and>
   0 \<le> 604800000 - time sample_day_before \<and>
   604800000 - time sample_day_before < 7 * (1000 * 60 * 60 * 24) \<and>
   0 \<le> 604800000 - time sample_far \<and>
   604800000 - time sample_far < 7 * (1000 * 60 * 60 * 24) \<and>
   sum_list (generateHeatmapData 604800000 (last7Days 604800000 [sample_day_before, sample_far])) = 2 \<and>
   generateHeatmapData 604800000 (last7Days 604800000 [sample_day_before, sample_far]) ! 5 = 1 \<and>
   generateHeatmapData 604800000 (last7Days 604800000 [sample_day_before, sample_far]) ! 6 = 1 \<and>
   before7d [sample_day_before, sample_far] 604800000 = [sample_day_before, sample_far] \<and>
   sum_list (generateBeforeHeatmap (before7d [sample_day_before, sample_far] 604800000) 604800000) = 2"
proof -
  have h: "\<forall>e \<in> set [sample_day_before, sample_far].
             0 \<le> 604800000 - time e \<and> 604800000 - time e < 7 * (1000 * 60 * 60 * 24)"
    by (simp add: sample_defs)
  note t = heatmap_sum_within_window
    [of 604800000 "[sample_day_before, sample_far]" 604800000
        "[sample_day_before, sample_far]" 604800000]
  have "sum_list (generateHeatmapData 604800000 [sample_day_before, sample_far]) = 2 \<and>
        generateHeatmapData 604800000 [sample_day_before, sample_far] ! 5 = 1 \<and>
        generateHeatmapData 604800000 [sample_day_before, sample_far] ! 6 = 1 \<and>
        sum_list (generateBeforeHeatmap [sample_day_before, sample_far] 604800000) = 2"
    using t h unfolding sample_window_lists
    by (simp add: sample_defs)
  then show ?thesis using h by (simp add: sample_window_lists)
qed

text \<open>
  An event exactly seven days before the mainshock (or before the clock reading) passes the
  filter and is counted in no counter of the heatmap.
\<close>

theorem heatmap_sum_counterexample:
  "countBefore (EarthquakeActivityCard sample_mainshock [sample_mainshock, sample_week_before]) = 1 \<and>
   sum_list (beforeHeatmapData
       (EarthquakeActivityCard sample_mainshock [sample_mainshock, sample_week_before])) = 0 \<and>
   count7d (RealTimeActivityCard 0 0 [sample_week_before] 604800000 604800000) = 1 \<and>
   sum_list (heatmapData (RealTimeActivityCard 0 0 [sample_week_before] 604800000 604800000)) = 0 \<and>
   sum_list (beforeHeatmapData
       (EarthquakeActivityCard sample_mainshock [sample_mainshock, sample_week_before])) \<noteq>
     countBefore (EarthquakeActivityCard sample_mainshock [sample_mainshock, sample_week_before]) \<and>
   sum_list (heatmapData (RealTimeActivityCard 0 0 [sample_week_before] 604800000 604800000)) \<noteq>
     count7d (RealTimeActivityCard 0 0 [sample_week_before] 604800000 604800000)"
  using sample_before_card sample_realtime_card by simp

text \<open>
  Claim C3, amended. Each of the two classifiers is a step function of the pair (event
  count, average magnitude) over its own fixed thresholds. \<^verbatim>\<open>getBeforeActivityLevel\<close>:
  HIGH iff count > 25 or average > 4.5; otherwise ELEVATED iff count > 15 or average > 4.0;
  otherwise MODERATE iff count > 5; otherwise LOW. \<^verbatim>\<open>getActivityLevel\<close>: HIGH iff
  count > 50 or average > 5.5; otherwise ELEVATED iff count > 25 or average > 5.0; otherwise
  MODERATE iff count > 10 or average > 4.5; otherwise LOW.
\<close>

theorem activity_level_step_functions:
  "(level (getBeforeActivityLevel c a) = ''HIGH'' \<longleftrightarrow> 25 < c \<or> 4.5 < a) \<and>
   (level (getBeforeActivityLevel c a) = ''ELEVATED'' \<longleftrightarrow>
      c \<le> 25 \<and> a \<le> 4.5 \<and> (15 < c \<or> 4.0 < a)) \<and>
   (level (getBeforeActivityLevel c a) = ''MODERATE'' \<longleftrightarrow> 5 < c \<and> c \<le> 15 \<and> a \<le> 4.0) \<and>
   (level (getBeforeActivityLevel c a) = ''LOW'' \<longleftrightarrow> c \<le> 5 \<and> a \<le> 4.0) \<and>
   (level (getActivityLevel c a) = ''HIGH'' \<longleftrightarrow> 50 < c \<or> 5.5 < a) \<and>
   (level (getActivityLevel c a) = ''ELEVATED'' \<longleftrightarrow>
      c \<le> 50 \<and> a \<le> 5.5 \<and> (25 < c \<or> 5.0 < a)) \<and>
   (level (getActivityLevel c a) = ''MODERATE'' \<longleftrightarrow>
      c \<le> 25 \<and> a \<le> 5.0 \<and> (10 < c \<or> 4.5 < a)) \<and>
   (level (getActivityLevel c a) = ''LOW'' \<longleftrightarrow> c \<le> 10 \<and> a \<le> 4.5)"
  by (auto simp: getBeforeActivityLevel_def getActivityLevel_def)

theorem activity_level_step_functions_witness:
  "level (getBeforeActivityLevel 30 0) = ''HIGH'' \<and>
   level (getBeforeActivityLevel 3 4.7) = ''HIGH'' \<and>
   level (getActivityLevel 51 0) = ''HIGH'' \<and>
   level (getActivityLevel 3 4.7) = ''MODERATE''"
  using activity_level_step_functions [of 30 0] activity_level_step_functions [of 3 "4.7"]
    activity_level_step_functions [of 51 0]
  by simp

text \<open>
  With 30 events of average magnitude 0, \<^verbatim>\<open>getActivityLevel\<close> answers ELEVATED.
\<close>

theorem getActivityLevel_counterexample:
  "(25 < (30::nat) \<or> 4.5 < (0::real)) \<and>
   level (getActivityLevel 30 0) = ''ELEVATED'' \<and>
   level (getActivityLevel 30 0) \<noteq> ''HIGH''"
  by (simp add: getActivityLevel_def)

text \<open>
  Claim C7, amended. In every run of the mounted search bar, a geocoding request is sent
  no earlier than 300 ms after every change of the search input that precedes it. A change
  of the input cancels the pending timeout; it starts a new one, due 300 ms later, when the
  trimmed query has at least three characters, and none otherwise.
\<close>

theorem debounce_delay:
  "(\<forall>pre t q post c q'.
      trace (run (SearchBar_mounted t0) evs) = pre @ Fetched t q # post \<longrightarrow>
      Changed c q' \<in> set pre \<longrightarrow> c + 300 \<le> t) \<and>
   (v \<noteq> searchQuery (run (SearchBar_mounted t0) evs) \<longrightarrow>
      timers (step (run (SearchBar_mounted t0) evs) (Input v)) =
        (if 3 \<le> length (trim v)
         then [nextTimer (run (SearchBar_mounted t0) evs) \<mapsto>
                 (clock (run (SearchBar_mounted t0) evs) + 300, v)]
         else Map.empty))"
proof -
  define s where "s = run (SearchBar_mounted t0) evs"
  have i: "debounce_inv s" "debounced (trace s)"
    using run_inv [of "SearchBar_mounted t0" evs] mounted_inv [of t0] by (simp_all add: s_def)
  have a: "\<forall>pre t q post c q'.
      trace s = pre @ Fetched t q # post \<longrightarrow> Changed c q' \<in> set pre \<longrightarrow> c + 300 \<le> t"
    using i(2) unfolding debounced_def by blast
  have b: "timers (step s (Input v)) =
        (if 3 \<le> length (trim v) then [nextTimer s \<mapsto> (clock s + 300, v)] else Map.empty)"
    if "v \<noteq> searchQuery s"
  proof -
    have "timers (after_render (searchQuery s) (s\<lparr>searchQuery := v\<rparr>)) =
           (if 3 \<le> length (trim (searchQuery (s\<lparr>searchQuery := v\<rparr>)))
            then [nextTimer (s\<lparr>searchQuery := v\<rparr>) \<mapsto>
                    (clock (s\<lparr>searchQuery := v\<rparr>) + 300, searchQuery (s\<lparr>searchQuery := v\<rparr>))]
            else Map.empty)"
      using i(1) that unfolding debounce_inv_def
      by (intro after_render_changed(3)) simp_all
    then show ?thesis by (simp add: handleInputChange_def)
  qed
  from a b show ?thesis unfolding s_def by blast
qed

theorem debounce_delay_witness:
  "trace (run (SearchBar_mounted 0)
            [Input ''par'', Wait 200, Input ''pari'', Wait 200, Fire 1, Fire 2, Wait 100, Fire 2]) =
     [Changed 0 ''par'', Changed 200 ''pari''] @ Fetched 500 ''pari'' # [] \<and>
   Changed 200 ''pari'' \<in> set [Changed 0 ''par'', Changed 200 ''pari''] \<and>
   (200::nat) + 300 \<le> 500 \<and>
   ''pari'' \<noteq> searchQuery (run (SearchBar_mounted 0) [Input ''par'', Wait 200]) \<and>
   timers (run (SearchBar_mounted 0) [Input ''par'', Wait 200]) = [1 \<mapsto> (300, ''par'')] \<and>
   timers (step (run (SearchBar_mounted 0) [Input ''par'', Wait 200]) (Input ''pari'')) =
     [2 \<mapsto> (500, ''pari'')]"
proof -
  have tr: "trace (run (SearchBar_mounted 0)
            [Input ''par'', Wait 200, Input ''pari'', Wait 200, Fire 1, Fire 2, Wait 100, Fire 2]) =
     [Changed 0 ''par'', Changed 200 ''pari''] @ Fetched 500 ''pari'' # []"
    using sample_debounced_run by simp
  have m: "Changed 200 ''pari'' \<in> set [Changed 0 ''par'', Changed 200 ''pari'']" by simp
  from debounce_delay [where ?t0.0 = 0 and v = "''pari''" and evs =
      "[Input ''par'', Wait 200, Input ''pari'', Wait 200, Fire 1, Fire 2, Wait 100, Fire 2]"]
    tr m
  have a: "(200::nat) + 300 \<le> 500" by blast
  have n: "''pari'' \<noteq> searchQuery (run (SearchBar_mounted 0) [Input ''par'', Wait 200])"
    using sample_new_timer by simp
  from debounce_delay [where ?t0.0 = 0 and v = "''pari''" and evs = "[Input ''par'', Wait 200]"] n
  have "timers (step (run (SearchBar_mounted 0) [Input ''par'', Wait 200]) (Input ''pari'')) =
        (if 3 \<le> length (trim ''pari'')
         then [nextTimer (run (SearchBar_mounted 0) [Input ''par'', Wait 200]) \<mapsto>
                 (clock (run (SearchBar_mounted 0) [Input ''par'', Wait 200]) + 300, ''pari'')]
         else Map.empty)"
    by blast
  then have b: "timers (step (run (SearchBar_mounted 0) [Input ''par'', Wait 200]) (Input ''pari'')) =
     [2 \<mapsto> (500, ''pari'')]"
    using sample_new_timer by simp
  from tr m a n b sample_new_timer show ?thesis by blast
qed

text \<open>
  A keystroke that leaves a query of two characters cancels the pending timeout and starts
  none.
\<close>

theorem keystroke_without_timer_counterexample:
  "trace (run (SearchBar_mounted 0) [Input ''par'', Wait 100, Input ''pa'']) =
     [Changed 0 ''par'', Changed 100 ''pa''] \<and>
   timers (run (SearchBar_mounted 0) [Input ''par'', Wait 100]) = [1 \<mapsto> (300, ''par'')] \<and>
   timers (run (SearchBar_mounted 0) [Input ''par'', Wait 100, Input ''pa'']) = Map.empty"
  by (rule sample_short_query)


end
